theory Spec2Isabelle
  imports Main "HOL-Library.Word"
begin

section \<open>The boundary data model\<close>

text \<open>
  The translated glue of libcef_dll: the C-to-C++ adapters (CToCpp) forward a virtual
  method through a struct of function pointers, the C++-to-C adapters (CppToC) forward a
  C callback to a virtual method. Pointers are optional addresses: \<open>None\<close> is the
  null pointer, for a \<open>CefRefPtr\<close> as for a raw pointer.
\<close>

type_synonym ptr = "nat option"

abbreviation NULL :: ptr where
  "NULL \<equiv> None"

text \<open>The C type \<open>int\<close>, 32 bits (\<open>sint\<close> reads it signed); enumerations and \<open>bool\<close> arguments cross the boundary as \<open>int\<close>.\<close>

type_synonym c_int = "32 word"

record cef_size_t =
  width :: c_int
  height :: c_int

record cef_rect_t =
  rect_x :: c_int
  rect_y :: c_int
  rect_width :: c_int
  rect_height :: c_int

record cef_draggable_region_t =
  bounds :: cef_rect_t
  draggable :: c_int

text \<open>
  \<open>CefSize\<close> and \<open>CefDraggableRegion\<close> are the C structs with constructors added
  (\<open>CefStructBase\<close>): the same fields, so the same records. \<open>CefSize()\<close> is the
  zero-initialised struct.
\<close>

definition CefSize :: cef_size_t where
  "CefSize = \<lparr>width = 0, height = 0\<rparr>"

text \<open>
  What a shim does beyond returning is recorded in a world: the log of calls that went
  through a function-pointer table or a virtual method, and the native arrays that are
  live. A cell of a fresh array holds no value until it is assigned.
\<close>

datatype arg =
    APtr ptr
  | AInt c_int
  | ASize nat
  | AStr string
  | ARegions ptr "cef_draggable_region_t option list option"

datatype event =
    Invoke string "arg list"
  | New nat nat
  | Delete nat

record world =
  trace :: "event list"
  heap :: "nat \<rightharpoonup> cef_draggable_region_t option list"
  next_addr :: nat

text \<open>
  How a call ends: it returns a value, it stops the process at a failed assertion, or it
  is left by an exception that the callee raised and nothing caught.
\<close>

datatype 'a outcome = Returned 'a | is_Fatal: Fatal string | Thrown

text \<open>
  What the translated files take from the rest of the library: whether \<open>DCHECK\<close> is
  compiled in (\<open>DCHECK_IS_ON()\<close>), and the \<open>Wrap\<close>, \<open>Unwrap\<close> and \<open>Get\<close>
  functions of the collaborating adapter classes (\<open>cpptoc.h\<close>, \<open>ctocpp.h\<close>), which
  the shims only call.
\<close>

datatype cpptoc_class =
    CefBrowserCppToC | CefDragDataCppToC | CefViewCppToC | CefListValueCppToC
  | CefFrameCppToC | CefRequestCppToC | CefV8ContextCppToC | CefV8ExceptionCppToC
  | CefV8StackTraceCppToC | CefDOMNodeCppToC | CefProcessMessageCppToC
  | CefAuthCallbackCppToC

datatype ctocpp_class =
    CefLoadHandlerCToCpp | CefWindowDelegateCToCpp

record bridge =
  DCHECK_IS_ON :: bool
  CppToC_Wrap :: "cpptoc_class \<Rightarrow> ptr \<Rightarrow> ptr"
  CppToC_Get :: "cpptoc_class \<Rightarrow> nat \<Rightarrow> nat"
  CToCpp_Wrap :: "ctocpp_class \<Rightarrow> ptr \<Rightarrow> ptr"
  CToCpp_Unwrap :: "ctocpp_class \<Rightarrow> ptr \<Rightarrow> ptr"

text \<open>
  Modelled from the spec: the macros \<open>DCHECK\<close> and \<open>NOTREACHED\<close> (Chromium's
  logging header) are not among the sources. A failed check is a debug-only assertion:
  fatal where \<open>DCHECK_IS_ON()\<close>, compiled out otherwise. \<open>NOTREACHED()\<close> is
  \<open>DCHECK(false)\<close> with the streamed message.
\<close>

definition DCHECK :: "bridge \<Rightarrow> bool \<Rightarrow> string \<Rightarrow> world \<Rightarrow> world \<times> 'a outcome \<Rightarrow> world \<times> 'a outcome" where
  "DCHECK br cond expr w rest =
     (if DCHECK_IS_ON br \<and> \<not> cond then (w, Fatal (''Check failed: '' @ expr)) else rest)"

definition NOTREACHED :: "bridge \<Rightarrow> string \<Rightarrow> 'a outcome \<Rightarrow> 'a outcome" where
  "NOTREACHED br msg rest = (if DCHECK_IS_ON br then Fatal msg else rest)"

text \<open>
  Modelled from the spec: the macro \<open>CEF_MEMBER_MISSING(s, f)\<close> is not among the
  sources. A member is missing when the foreign implementation did not supply that
  function pointer; a table entry is an optional function.
\<close>

definition CEF_MEMBER_MISSING :: "'f option \<Rightarrow> bool" where
  "CEF_MEMBER_MISSING f = (f = None)"

definition invoke :: "string \<Rightarrow> arg list \<Rightarrow> world \<Rightarrow> world" where
  "invoke member args w = w\<lparr>trace := trace w @ [Invoke member args]\<rparr>"

definition bool_to_int :: "bool \<Rightarrow> c_int" where
  "bool_to_int b = (if b then 1 else 0)"

subsection \<open>Native arrays\<close>

text \<open>
  \<open>new T[n]\<close> yields a fresh, non-null address of \<open>n\<close> unassigned cells (plain
  \<open>new\<close> never returns null); \<open>delete []\<close> ends the array's life. Every array the
  shims index is indexed inside its bounds; a store elsewhere leaves the world as it is.
\<close>

definition new_array :: "nat \<Rightarrow> world \<Rightarrow> world \<times> ptr" where
  "new_array n w =
     (let a = next_addr w
      in (w\<lparr>trace := trace w @ [New a n],
            heap := (heap w)(a \<mapsto> replicate n None),
            next_addr := Suc a\<rparr>, Some a))"

definition store :: "nat \<Rightarrow> nat \<Rightarrow> cef_draggable_region_t \<Rightarrow> world \<Rightarrow> world" where
  "store a i v w =
     (case heap w a of
        None \<Rightarrow> w
      | Some cells \<Rightarrow> w\<lparr>heap := (heap w)(a \<mapsto> cells[i := Some v])\<rparr>)"

definition delete_array :: "nat \<Rightarrow> world \<Rightarrow> world" where
  "delete_array a w = w\<lparr>trace := trace w @ [Delete a], heap := (heap w)(a := None)\<rparr>"

section \<open>CefDragHandlerCToCpp\<close>

text \<open>
  A table entry is the foreign function applied to its own handle: the first argument
  of every call in the source, \<open>_struct\<close>, is left implicit.
  \<open>on_draggable_regions_changed\<close> is called while the shim holds a native array, so
  its entry says how the callee ends: it returns, or it does not (it stops the process,
  or it raises an exception, which the shim does not catch).
\<close>

record cef_drag_handler_t =
  on_drag_enter :: "(ptr \<Rightarrow> ptr \<Rightarrow> c_int \<Rightarrow> c_int) option"
  on_draggable_regions_changed :: "(ptr \<Rightarrow> nat \<Rightarrow> ptr \<Rightarrow> unit outcome) option"

definition CefDragHandlerCToCpp_OnDragEnter ::
  "bridge \<Rightarrow> cef_drag_handler_t \<Rightarrow> ptr \<Rightarrow> ptr \<Rightarrow> c_int \<Rightarrow> world \<Rightarrow> world \<times> bool outcome" where
  "CefDragHandlerCToCpp_OnDragEnter br struct browser dragData mask' w =
     (if CEF_MEMBER_MISSING (on_drag_enter struct) then (w, Returned False)
      else DCHECK br (browser \<noteq> NULL) ''browser.get()'' w
       (if browser = NULL then (w, Returned False)
        else DCHECK br (dragData \<noteq> NULL) ''dragData.get()'' w
         (if dragData = NULL then (w, Returned False)
          else
            let a1 = CppToC_Wrap br CefBrowserCppToC browser;
                a2 = CppToC_Wrap br CefDragDataCppToC dragData;
                retval = the (on_drag_enter struct) a1 a2 mask'
            in (invoke ''on_drag_enter'' [APtr a1, APtr a2, AInt mask'] w,
                Returned (if retval \<noteq> 0 then True else False)))))"

text \<open>The loop \<open>for (size_t i = 0; i < regionsCount; ++i) regionsList[i] = regions[i];\<close>\<close>

function copy_regions ::
  "cef_draggable_region_t list \<Rightarrow> nat \<Rightarrow> nat \<Rightarrow> nat \<Rightarrow> world \<Rightarrow> world" where
  "copy_regions regions regionsCount regionsList i w =
     (if i < regionsCount
      then copy_regions regions regionsCount regionsList (Suc i)
             (store regionsList i (regions ! i) w)
      else w)"
  by pat_completeness auto
termination
  by (relation "measure (\<lambda>(regions, regionsCount, regionsList, i, w). regionsCount - i)") auto

declare copy_regions.simps [simp del]

text \<open>
  \<open>regionsList\<close> starts as \<open>NULL\<close> and is assigned only under
  \<open>regionsCount > 0\<close>, where the source also checks it and runs the copy loop; so the
  check is written as an implication and the loop as the non-null case of the pointer.
  The event records what the array pointer shows at the moment of the call. There is no
  guard around the call: \<open>delete []\<close> is the statement after it and runs only when
  the callee returns; any other end of the callee is the end of the shim.
\<close>

definition CefDragHandlerCToCpp_OnDraggableRegionsChanged ::
  "bridge \<Rightarrow> cef_drag_handler_t \<Rightarrow> ptr \<Rightarrow> cef_draggable_region_t list \<Rightarrow> world \<Rightarrow> world \<times> unit outcome" where
  "CefDragHandlerCToCpp_OnDraggableRegionsChanged br struct browser regions w =
     (if CEF_MEMBER_MISSING (on_draggable_regions_changed struct) then (w, Returned ())
      else DCHECK br (browser \<noteq> NULL) ''browser.get()'' w
       (if browser = NULL then (w, Returned ())
        else
          let regionsCount = length regions;
              (w1, regionsList) =
                (if regionsCount > 0 then new_array regionsCount w else (w, NULL))
          in DCHECK br (regionsCount > 0 \<longrightarrow> regionsList \<noteq> NULL) ''regionsList'' w1
              (let w2 = (case regionsList of
                           None \<Rightarrow> w1
                         | Some a \<Rightarrow> copy_regions regions regionsCount a 0 w1);
                   a1 = CppToC_Wrap br CefBrowserCppToC browser;
                   w3 = invoke ''on_draggable_regions_changed''
                          [APtr a1, ASize regionsCount,
                           ARegions regionsList (case regionsList of None \<Rightarrow> None | Some a \<Rightarrow> heap w2 a)]
                          w2
               in (case the (on_draggable_regions_changed struct) a1 regionsCount regionsList of
                     Returned u \<Rightarrow>
                       (case regionsList of
                          None \<Rightarrow> (w3, Returned ())
                        | Some a \<Rightarrow> (delete_array a w3, Returned ()))
                   | Fatal msg \<Rightarrow> (w3, Fatal msg)
                   | Thrown \<Rightarrow> (w3, Thrown)))))"

section \<open>CefPanelDelegateCToCpp\<close>

text \<open>
  \<open>cef_panel_delegate_t\<close> embeds the table of the interface it extends as its first
  member; \<open>reinterpret_cast<cef_view_delegate_t*>(GetStruct())\<close> reads that member.
\<close>

record cef_view_delegate_t =
  get_preferred_size :: "(ptr \<Rightarrow> cef_size_t) option"
  get_minimum_size :: "(ptr \<Rightarrow> cef_size_t) option"
  get_maximum_size :: "(ptr \<Rightarrow> cef_size_t) option"
  get_height_for_width :: "(ptr \<Rightarrow> c_int \<Rightarrow> c_int) option"
  on_parent_view_changed :: "(ptr \<Rightarrow> c_int \<Rightarrow> ptr \<Rightarrow> unit) option"
  on_child_view_changed :: "(ptr \<Rightarrow> c_int \<Rightarrow> ptr \<Rightarrow> unit) option"

record cef_panel_delegate_t =
  base :: cef_view_delegate_t

definition CefPanelDelegateCToCpp_GetPreferredSize ::
  "bridge \<Rightarrow> cef_panel_delegate_t \<Rightarrow> ptr \<Rightarrow> world \<Rightarrow> world \<times> cef_size_t outcome" where
  "CefPanelDelegateCToCpp_GetPreferredSize br struct view w =
     (if CEF_MEMBER_MISSING (get_preferred_size (base struct)) then (w, Returned CefSize)
      else DCHECK br (view \<noteq> NULL) ''view.get()'' w
       (if view = NULL then (w, Returned CefSize)
        else
          let a1 = CppToC_Wrap br CefViewCppToC view;
              retval = the (get_preferred_size (base struct)) a1
          in (invoke ''get_preferred_size'' [APtr a1] w,
              Returned retval)))"

definition CefPanelDelegateCToCpp_GetMinimumSize ::
  "bridge \<Rightarrow> cef_panel_delegate_t \<Rightarrow> ptr \<Rightarrow> world \<Rightarrow> world \<times> cef_size_t outcome" where
  "CefPanelDelegateCToCpp_GetMinimumSize br struct view w =
     (if CEF_MEMBER_MISSING (get_minimum_size (base struct)) then (w, Returned CefSize)
      else DCHECK br (view \<noteq> NULL) ''view.get()'' w
       (if view = NULL then (w, Returned CefSize)
        else
          let a1 = CppToC_Wrap br CefViewCppToC view;
              retval = the (get_minimum_size (base struct)) a1
          in (invoke ''get_minimum_size'' [APtr a1] w,
              Returned retval)))"

definition CefPanelDelegateCToCpp_GetMaximumSize ::
  "bridge \<Rightarrow> cef_panel_delegate_t \<Rightarrow> ptr \<Rightarrow> world \<Rightarrow> world \<times> cef_size_t outcome" where
  "CefPanelDelegateCToCpp_GetMaximumSize br struct view w =
     (if CEF_MEMBER_MISSING (get_maximum_size (base struct)) then (w, Returned CefSize)
      else DCHECK br (view \<noteq> NULL) ''view.get()'' w
       (if view = NULL then (w, Returned CefSize)
        else
          let a1 = CppToC_Wrap br CefViewCppToC view;
              retval = the (get_maximum_size (base struct)) a1
          in (invoke ''get_maximum_size'' [APtr a1] w,
              Returned retval)))"

definition CefPanelDelegateCToCpp_GetHeightForWidth ::
  "bridge \<Rightarrow> cef_panel_delegate_t \<Rightarrow> ptr \<Rightarrow> c_int \<Rightarrow> world \<Rightarrow> world \<times> c_int outcome" where
  "CefPanelDelegateCToCpp_GetHeightForWidth br struct view width' w =
     (if CEF_MEMBER_MISSING (get_height_for_width (base struct)) then (w, Returned 0)
      else DCHECK br (view \<noteq> NULL) ''view.get()'' w
       (if view = NULL then (w, Returned 0)
        else
          let a1 = CppToC_Wrap br CefViewCppToC view;
              retval = the (get_height_for_width (base struct)) a1 width'
          in (invoke ''get_height_for_width'' [APtr a1, AInt width'] w,
              Returned retval)))"

definition CefPanelDelegateCToCpp_OnParentViewChanged ::
  "bridge \<Rightarrow> cef_panel_delegate_t \<Rightarrow> ptr \<Rightarrow> bool \<Rightarrow> ptr \<Rightarrow> world \<Rightarrow> world \<times> unit outcome" where
  "CefPanelDelegateCToCpp_OnParentViewChanged br struct view added parent w =
     (if CEF_MEMBER_MISSING (on_parent_view_changed (base struct)) then (w, Returned ())
      else DCHECK br (view \<noteq> NULL) ''view.get()'' w
       (if view = NULL then (w, Returned ())
        else DCHECK br (parent \<noteq> NULL) ''parent.get()'' w
         (if parent = NULL then (w, Returned ())
          else
            let a1 = CppToC_Wrap br CefViewCppToC view;
                a2 = bool_to_int added;
                a3 = CppToC_Wrap br CefViewCppToC parent
            in (invoke ''on_parent_view_changed'' [APtr a1, AInt a2, APtr a3] w,
                Returned ()))))"

definition CefPanelDelegateCToCpp_OnChildViewChanged ::
  "bridge \<Rightarrow> cef_panel_delegate_t \<Rightarrow> ptr \<Rightarrow> bool \<Rightarrow> ptr \<Rightarrow> world \<Rightarrow> world \<times> unit outcome" where
  "CefPanelDelegateCToCpp_OnChildViewChanged br struct view added child w =
     (if CEF_MEMBER_MISSING (on_child_view_changed (base struct)) then (w, Returned ())
      else DCHECK br (view \<noteq> NULL) ''view.get()'' w
       (if view = NULL then (w, Returned ())
        else DCHECK br (child \<noteq> NULL) ''child.get()'' w
         (if child = NULL then (w, Returned ())
          else
            let a1 = CppToC_Wrap br CefViewCppToC view;
                a2 = bool_to_int added;
                a3 = CppToC_Wrap br CefViewCppToC child
            in (invoke ''on_child_view_changed'' [APtr a1, AInt a2, APtr a3] w,
                Returned ()))))"

section \<open>CefRenderProcessHandlerCToCpp\<close>

record cef_render_process_handler_t =
  on_render_thread_created :: "(ptr \<Rightarrow> unit) option"
  on_web_kit_initialized :: "(unit \<Rightarrow> unit) option"
  on_browser_created :: "(ptr \<Rightarrow> unit) option"
  on_browser_destroyed :: "(ptr \<Rightarrow> unit) option"
  get_load_handler :: "(unit \<Rightarrow> ptr) option"
  on_before_navigation :: "(ptr \<Rightarrow> ptr \<Rightarrow> ptr \<Rightarrow> c_int \<Rightarrow> c_int \<Rightarrow> c_int) option"
  on_context_created :: "(ptr \<Rightarrow> ptr \<Rightarrow> ptr \<Rightarrow> unit) option"
  on_context_released :: "(ptr \<Rightarrow> ptr \<Rightarrow> ptr \<Rightarrow> unit) option"
  on_uncaught_exception :: "(ptr \<Rightarrow> ptr \<Rightarrow> ptr \<Rightarrow> ptr \<Rightarrow> ptr \<Rightarrow> unit) option"
  on_focused_node_changed :: "(ptr \<Rightarrow> ptr \<Rightarrow> ptr \<Rightarrow> unit) option"
  on_process_message_received :: "(ptr \<Rightarrow> c_int \<Rightarrow> ptr \<Rightarrow> c_int) option"

definition CefRenderProcessHandlerCToCpp_OnRenderThreadCreated ::
  "bridge \<Rightarrow> cef_render_process_handler_t \<Rightarrow> ptr \<Rightarrow> world \<Rightarrow> world \<times> unit outcome" where
  "CefRenderProcessHandlerCToCpp_OnRenderThreadCreated br struct extra_info w =
     (if CEF_MEMBER_MISSING (on_render_thread_created struct) then (w, Returned ())
      else DCHECK br (extra_info \<noteq> NULL) ''extra_info.get()'' w
       (if extra_info = NULL then (w, Returned ())
        else
          let a1 = CppToC_Wrap br CefListValueCppToC extra_info
          in (invoke ''on_render_thread_created'' [APtr a1] w,
              Returned ())))"

definition CefRenderProcessHandlerCToCpp_OnWebKitInitialized ::
  "bridge \<Rightarrow> cef_render_process_handler_t \<Rightarrow> world \<Rightarrow> world \<times> unit outcome" where
  "CefRenderProcessHandlerCToCpp_OnWebKitInitialized br struct w =
     (if CEF_MEMBER_MISSING (on_web_kit_initialized struct) then (w, Returned ())
      else (invoke ''on_web_kit_initialized'' [] w, Returned ()))"

definition CefRenderProcessHandlerCToCpp_OnBrowserCreated ::
  "bridge \<Rightarrow> cef_render_process_handler_t \<Rightarrow> ptr \<Rightarrow> world \<Rightarrow> world \<times> unit outcome" where
  "CefRenderProcessHandlerCToCpp_OnBrowserCreated br struct browser w =
     (if CEF_MEMBER_MISSING (on_browser_created struct) then (w, Returned ())
      else DCHECK br (browser \<noteq> NULL) ''browser.get()'' w
       (if browser = NULL then (w, Returned ())
        else
          let a1 = CppToC_Wrap br CefBrowserCppToC browser
          in (invoke ''on_browser_created'' [APtr a1] w,
              Returned ())))"

definition CefRenderProcessHandlerCToCpp_OnBrowserDestroyed ::
  "bridge \<Rightarrow> cef_render_process_handler_t \<Rightarrow> ptr \<Rightarrow> world \<Rightarrow> world \<times> unit outcome" where
  "CefRenderProcessHandlerCToCpp_OnBrowserDestroyed br struct browser w =
     (if CEF_MEMBER_MISSING (on_browser_destroyed struct) then (w, Returned ())
      else DCHECK br (browser \<noteq> NULL) ''browser.get()'' w
       (if browser = NULL then (w, Returned ())
        else
          let a1 = CppToC_Wrap br CefBrowserCppToC browser
          in (invoke ''on_browser_destroyed'' [APtr a1] w,
              Returned ())))"

definition CefRenderProcessHandlerCToCpp_GetLoadHandler ::
  "bridge \<Rightarrow> cef_render_process_handler_t \<Rightarrow> world \<Rightarrow> world \<times> ptr outcome" where
  "CefRenderProcessHandlerCToCpp_GetLoadHandler br struct w =
     (if CEF_MEMBER_MISSING (get_load_handler struct) then (w, Returned NULL)
      else
        let retval = the (get_load_handler struct) ()
        in (invoke ''get_load_handler'' [] w,
            Returned (CToCpp_Wrap br CefLoadHandlerCToCpp retval)))"

definition CefRenderProcessHandlerCToCpp_OnBeforeNavigation ::
  "bridge \<Rightarrow> cef_render_process_handler_t \<Rightarrow> ptr \<Rightarrow> ptr \<Rightarrow> ptr \<Rightarrow> c_int \<Rightarrow> bool \<Rightarrow> world \<Rightarrow> world \<times> bool outcome" where
  "CefRenderProcessHandlerCToCpp_OnBeforeNavigation br struct browser frame request navigation_type is_redirect w =
     (if CEF_MEMBER_MISSING (on_before_navigation struct) then (w, Returned False)
      else DCHECK br (browser \<noteq> NULL) ''browser.get()'' w
       (if browser = NULL then (w, Returned False)
        else DCHECK br (frame \<noteq> NULL) ''frame.get()'' w
         (if frame = NULL then (w, Returned False)
          else DCHECK br (request \<noteq> NULL) ''request.get()'' w
           (if request = NULL then (w, Returned False)
            else
              let a1 = CppToC_Wrap br CefBrowserCppToC browser;
                  a2 = CppToC_Wrap br CefFrameCppToC frame;
                  a3 = CppToC_Wrap br CefRequestCppToC request;
                  a5 = bool_to_int is_redirect;
                  retval = the (on_before_navigation struct) a1 a2 a3 navigation_type a5
              in (invoke ''on_before_navigation'' [APtr a1, APtr a2, APtr a3, AInt navigation_type, AInt a5] w,
                  Returned (if retval \<noteq> 0 then True else False))))))"

definition CefRenderProcessHandlerCToCpp_OnContextCreated ::
  "bridge \<Rightarrow> cef_render_process_handler_t \<Rightarrow> ptr \<Rightarrow> ptr \<Rightarrow> ptr \<Rightarrow> world \<Rightarrow> world \<times> unit outcome" where
  "CefRenderProcessHandlerCToCpp_OnContextCreated br struct browser frame context w =
     (if CEF_MEMBER_MISSING (on_context_created struct) then (w, Returned ())
      else DCHECK br (browser \<noteq> NULL) ''browser.get()'' w
       (if browser = NULL then (w, Returned ())
        else DCHECK br (frame \<noteq> NULL) ''frame.get()'' w
         (if frame = NULL then (w, Returned ())
          else DCHECK br (context \<noteq> NULL) ''context.get()'' w
           (if context = NULL then (w, Returned ())
            else
              let a1 = CppToC_Wrap br CefBrowserCppToC browser;
                  a2 = CppToC_Wrap br CefFrameCppToC frame;
                  a3 = CppToC_Wrap br CefV8ContextCppToC context
              in (invoke ''on_context_created'' [APtr a1, APtr a2, APtr a3] w,
                  Returned ())))))"

definition CefRenderProcessHandlerCToCpp_OnContextReleased ::
  "bridge \<Rightarrow> cef_render_process_handler_t \<Rightarrow> ptr \<Rightarrow> ptr \<Rightarrow> ptr \<Rightarrow> world \<Rightarrow> world \<times> unit outcome" where
  "CefRenderProcessHandlerCToCpp_OnContextReleased br struct browser frame context w =
     (if CEF_MEMBER_MISSING (on_context_released struct) then (w, Returned ())
      else DCHECK br (browser \<noteq> NULL) ''browser.get()'' w
       (if browser = NULL then (w, Returned ())
        else DCHECK br (frame \<noteq> NULL) ''frame.get()'' w
         (if frame = NULL then (w, Returned ())
          else DCHECK br (context \<noteq> NULL) ''context.get()'' w
           (if context = NULL then (w, Returned ())
            else
              let a1 = CppToC_Wrap br CefBrowserCppToC browser;
                  a2 = CppToC_Wrap br CefFrameCppToC frame;
                  a3 = CppToC_Wrap br CefV8ContextCppToC context
              in (invoke ''on_context_released'' [APtr a1, APtr a2, APtr a3] w,
                  Returned ())))))"

definition CefRenderProcessHandlerCToCpp_OnUncaughtException ::
  "bridge \<Rightarrow> cef_render_process_handler_t \<Rightarrow> ptr \<Rightarrow> ptr \<Rightarrow> ptr \<Rightarrow> ptr \<Rightarrow> ptr \<Rightarrow> world \<Rightarrow> world \<times> unit outcome" where
  "CefRenderProcessHandlerCToCpp_OnUncaughtException br struct browser frame context exception stackTrace w =
     (if CEF_MEMBER_MISSING (on_uncaught_exception struct) then (w, Returned ())
      else DCHECK br (browser \<noteq> NULL) ''browser.get()'' w
       (if browser = NULL then (w, Returned ())
        else DCHECK br (frame \<noteq> NULL) ''frame.get()'' w
         (if frame = NULL then (w, Returned ())
          else DCHECK br (context \<noteq> NULL) ''context.get()'' w
           (if context = NULL then (w, Returned ())
            else DCHECK br (exception \<noteq> NULL) ''exception.get()'' w
             (if exception = NULL then (w, Returned ())
              else DCHECK br (stackTrace \<noteq> NULL) ''stackTrace.get()'' w
               (if stackTrace = NULL then (w, Returned ())
                else
                  let a1 = CppToC_Wrap br CefBrowserCppToC browser;
                      a2 = CppToC_Wrap br CefFrameCppToC frame;
                      a3 = CppToC_Wrap br CefV8ContextCppToC context;
                      a4 = CppToC_Wrap br CefV8ExceptionCppToC exception;
                      a5 = CppToC_Wrap br CefV8StackTraceCppToC stackTrace
                  in (invoke ''on_uncaught_exception'' [APtr a1, APtr a2, APtr a3, APtr a4, APtr a5] w,
                      Returned ())))))))"

text \<open>Only \<open>browser\<close> is verified; the source marks \<open>frame\<close> and \<open>node\<close> as unverified params.\<close>

definition CefRenderProcessHandlerCToCpp_OnFocusedNodeChanged ::
  "bridge \<Rightarrow> cef_render_process_handler_t \<Rightarrow> ptr \<Rightarrow> ptr \<Rightarrow> ptr \<Rightarrow> world \<Rightarrow> world \<times> unit outcome" where
  "CefRenderProcessHandlerCToCpp_OnFocusedNodeChanged br struct browser frame node w =
     (if CEF_MEMBER_MISSING (on_focused_node_changed struct) then (w, Returned ())
      else DCHECK br (browser \<noteq> NULL) ''browser.get()'' w
       (if browser = NULL then (w, Returned ())
        else
          let a1 = CppToC_Wrap br CefBrowserCppToC browser;
              a2 = CppToC_Wrap br CefFrameCppToC frame;
              a3 = CppToC_Wrap br CefDOMNodeCppToC node
          in (invoke ''on_focused_node_changed'' [APtr a1, APtr a2, APtr a3] w,
              Returned ())))"

definition CefRenderProcessHandlerCToCpp_OnProcessMessageReceived ::
  "bridge \<Rightarrow> cef_render_process_handler_t \<Rightarrow> ptr \<Rightarrow> c_int \<Rightarrow> ptr \<Rightarrow> world \<Rightarrow> world \<times> bool outcome" where
  "CefRenderProcessHandlerCToCpp_OnProcessMessageReceived br struct browser source_process message w =
     (if CEF_MEMBER_MISSING (on_process_message_received struct) then (w, Returned False)
      else DCHECK br (browser \<noteq> NULL) ''browser.get()'' w
       (if browser = NULL then (w, Returned False)
        else DCHECK br (message \<noteq> NULL) ''message.get()'' w
         (if message = NULL then (w, Returned False)
          else
            let a1 = CppToC_Wrap br CefBrowserCppToC browser;
                a3 = CppToC_Wrap br CefProcessMessageCppToC message;
                retval = the (on_process_message_received struct) a1 source_process a3
            in (invoke ''on_process_message_received'' [APtr a1, AInt source_process, APtr a3] w,
                Returned (if retval \<noteq> 0 then True else False)))))"

section \<open>CefAuthCallbackCppToC\<close>

text \<open>
  The C callbacks installed in the table of a \<open>cef_auth_callback_t\<close>. A
  \<open>const cef_string_t*\<close> is an optional string; \<open>Get(self)\<close> is the wrapped C++
  object, whose virtual method is called.
\<close>

definition auth_callback_cont ::
  "bridge \<Rightarrow> ptr \<Rightarrow> string option \<Rightarrow> string option \<Rightarrow> world \<Rightarrow> world \<times> unit outcome" where
  "auth_callback_cont br self username password w =
     DCHECK br (self \<noteq> NULL) ''self'' w
      (if self = NULL then (w, Returned ())
       else DCHECK br (username \<noteq> None) ''username'' w
        (if username = None then (w, Returned ())
         else DCHECK br (password \<noteq> None) ''password'' w
          (if password = None then (w, Returned ())
           else
             let obj = CppToC_Get br CefAuthCallbackCppToC (the self)
             in (invoke ''CefAuthCallback::Continue''
                   [APtr (Some obj), AStr (the username), AStr (the password)] w,
                 Returned ()))))"

definition auth_callback_cancel ::
  "bridge \<Rightarrow> ptr \<Rightarrow> world \<Rightarrow> world \<times> unit outcome" where
  "auth_callback_cancel br self w =
     DCHECK br (self \<noteq> NULL) ''self'' w
      (if self = NULL then (w, Returned ())
       else
         let obj = CppToC_Get br CefAuthCallbackCppToC (the self)
         in (invoke ''CefAuthCallback::Cancel'' [APtr (Some obj)] w, Returned ()))"

section \<open>Type tags and UnwrapDerived\<close>

text \<open>
  The tags the translated files name; \<open>WT_OTHER\<close> stands for the remaining
  enumerators of \<open>CefWrapperType\<close>, whose declaration is not among the sources.
\<close>

datatype CefWrapperType =
    WT_AUTH_CALLBACK
  | WT_DRAG_HANDLER
  | WT_PANEL_DELEGATE
  | WT_RENDER_PROCESS_HANDLER
  | WT_WINDOW_DELEGATE
  | WT_OTHER nat

definition CefDragHandlerCToCpp_kWrapperType :: CefWrapperType where
  "CefDragHandlerCToCpp_kWrapperType = WT_DRAG_HANDLER"

definition CefPanelDelegateCToCpp_kWrapperType :: CefWrapperType where
  "CefPanelDelegateCToCpp_kWrapperType = WT_PANEL_DELEGATE"

definition CefRenderProcessHandlerCToCpp_kWrapperType :: CefWrapperType where
  "CefRenderProcessHandlerCToCpp_kWrapperType = WT_RENDER_PROCESS_HANDLER"

definition CefAuthCallbackCppToC_kWrapperType :: CefWrapperType where
  "CefAuthCallbackCppToC_kWrapperType = WT_AUTH_CALLBACK"

text \<open>A \<open>reinterpret_cast\<close> between pointer types keeps the address.\<close>

definition CefDragHandlerCToCpp_UnwrapDerived ::
  "bridge \<Rightarrow> CefWrapperType \<Rightarrow> ptr \<Rightarrow> ptr outcome" where
  "CefDragHandlerCToCpp_UnwrapDerived br type c =
     NOTREACHED br ''Unexpected class type'' (Returned NULL)"

definition CefPanelDelegateCToCpp_UnwrapDerived ::
  "bridge \<Rightarrow> CefWrapperType \<Rightarrow> ptr \<Rightarrow> ptr outcome" where
  "CefPanelDelegateCToCpp_UnwrapDerived br type c =
     (if type = WT_WINDOW_DELEGATE
      then Returned (CToCpp_Unwrap br CefWindowDelegateCToCpp c)
      else NOTREACHED br ''Unexpected class type'' (Returned NULL))"

definition CefRenderProcessHandlerCToCpp_UnwrapDerived ::
  "bridge \<Rightarrow> CefWrapperType \<Rightarrow> ptr \<Rightarrow> ptr outcome" where
  "CefRenderProcessHandlerCToCpp_UnwrapDerived br type c =
     NOTREACHED br ''Unexpected class type'' (Returned NULL)"

definition CefAuthCallbackCppToC_UnwrapDerived ::
  "bridge \<Rightarrow> CefWrapperType \<Rightarrow> ptr \<Rightarrow> ptr outcome" where
  "CefAuthCallbackCppToC_UnwrapDerived br type s =
     NOTREACHED br ''Unexpected class type'' (Returned NULL)"

section \<open>The wrapped-handle table\<close>

text \<open>
  Modelled from the spec: \<open>Wrap\<close> and \<open>Unwrap\<close> of the adapter templates
  (\<open>cpptoc.h\<close>, \<open>ctocpp.h\<close>) are not among the sources. The table is the registry
  that associates an opaque handle with a wrapper object and a type tag. \<open>wrap\<close>
  creates the handle of a managed wrapper at wrap time and reuses it for later wraps of
  the same wrapper; \<open>unwrap\<close> returns the managed wrapper that produced the handle,
  and fails with a debug assertion when the handle did not originate from the table.
\<close>

record handle_table =
  entries :: "(nat \<times> nat \<times> CefWrapperType) list"
  next_handle :: nat

definition handle_of :: "handle_table \<Rightarrow> nat \<Rightarrow> nat option" where
  "handle_of t obj = map_option fst (find (\<lambda>(h, obj', tag). obj' = obj) (entries t))"

definition wrapper_of :: "handle_table \<Rightarrow> nat \<Rightarrow> nat option" where
  "wrapper_of t h = map_option (\<lambda>(h', obj, tag). obj) (find (\<lambda>(h', obj, tag). h' = h) (entries t))"

definition wrap :: "CefWrapperType \<Rightarrow> nat \<Rightarrow> handle_table \<Rightarrow> handle_table \<times> nat" where
  "wrap tag obj t =
     (case handle_of t obj of
        Some h \<Rightarrow> (t, h)
      | None \<Rightarrow>
          let h = next_handle t
          in (t\<lparr>entries := (h, obj, tag) # entries t, next_handle := Suc h\<rparr>, h))"

definition unwrap :: "bridge \<Rightarrow> nat \<Rightarrow> handle_table \<Rightarrow> ptr outcome" where
  "unwrap br h t =
     (case wrapper_of t h of
        Some obj \<Rightarrow> Returned (Some obj)
      | None \<Rightarrow> NOTREACHED br ''handle did not originate from this bridge'' (Returned NULL))"

definition empty_table :: handle_table where
  "empty_table = \<lparr>entries = [], next_handle = 0\<rparr>"

text \<open>
  The tables that wrapping builds: no handle is entered twice, and every handle in use
  lies below the next one to be issued.
\<close>

definition table_ok :: "handle_table \<Rightarrow> bool" where
  "table_ok t =
     (distinct (map fst (entries t)) \<and> list_all (\<lambda>(h, obj, tag). h < next_handle t) (entries t))"

section \<open>Reading a trace\<close>




section \<open>Example bridges, handler tables and worlds\<close>

definition debug_bridge :: bridge where
  "debug_bridge =
     \<lparr>DCHECK_IS_ON = True,
      CppToC_Wrap = (\<lambda>cls. map_option (\<lambda>a. a + 100)),
      CppToC_Get = (\<lambda>cls a. a + 200),
      CToCpp_Wrap = (\<lambda>cls. map_option (\<lambda>a. a + 300)),
      CToCpp_Unwrap = (\<lambda>cls. map_option (\<lambda>a. a + 400))\<rparr>"

definition release_bridge :: bridge where
  "release_bridge = debug_bridge\<lparr>DCHECK_IS_ON := False\<rparr>"

definition empty_world :: world where
  "empty_world = \<lparr>trace = [], heap = Map.empty, next_addr = 0\<rparr>"

definition full_drag_handler :: cef_drag_handler_t where
  "full_drag_handler =
     \<lparr>on_drag_enter = Some (\<lambda>browser dragData m. m),
      on_draggable_regions_changed = Some (\<lambda>browser n regions. Returned ())\<rparr>"


definition empty_drag_handler :: cef_drag_handler_t where
  "empty_drag_handler = \<lparr>on_drag_enter = None, on_draggable_regions_changed = None\<rparr>"

definition full_panel_delegate :: cef_panel_delegate_t where
  "full_panel_delegate =
     \<lparr>base =
        \<lparr>get_preferred_size = Some (\<lambda>view. \<lparr>width = 640, height = 480\<rparr>),
         get_minimum_size = Some (\<lambda>view. \<lparr>width = 1, height = 2\<rparr>),
         get_maximum_size = Some (\<lambda>view. \<lparr>width = 1920, height = 1080\<rparr>),
         get_height_for_width = Some (\<lambda>view w. w + w),
         on_parent_view_changed = Some (\<lambda>view added parent. ()),
         on_child_view_changed = Some (\<lambda>view added child. ())\<rparr>\<rparr>"

definition empty_panel_delegate :: cef_panel_delegate_t where
  "empty_panel_delegate =
     \<lparr>base =
        \<lparr>get_preferred_size = None, get_minimum_size = None, get_maximum_size = None,
         get_height_for_width = None, on_parent_view_changed = None,
         on_child_view_changed = None\<rparr>\<rparr>"

definition full_render_process_handler :: cef_render_process_handler_t where
  "full_render_process_handler =
     \<lparr>on_render_thread_created = Some (\<lambda>extra_info. ()),
      on_web_kit_initialized = Some (\<lambda>u. ()),
      on_browser_created = Some (\<lambda>browser. ()),
      on_browser_destroyed = Some (\<lambda>browser. ()),
      get_load_handler = Some (\<lambda>u. Some 9),
      on_before_navigation = Some (\<lambda>browser frame request navigation_type is_redirect. navigation_type),
      on_context_created = Some (\<lambda>browser frame context. ()),
      on_context_released = Some (\<lambda>browser frame context. ()),
      on_uncaught_exception = Some (\<lambda>browser frame context exception stackTrace. ()),
      on_focused_node_changed = Some (\<lambda>browser frame node. ()),
      on_process_message_received = Some (\<lambda>browser source_process message. source_process)\<rparr>"

definition empty_render_process_handler :: cef_render_process_handler_t where
  "empty_render_process_handler =
     \<lparr>on_render_thread_created = None, on_web_kit_initialized = None,
      on_browser_created = None, on_browser_destroyed = None, get_load_handler = None,
      on_before_navigation = None, on_context_created = None, on_context_released = None,
      on_uncaught_exception = None, on_focused_node_changed = None,
      on_process_message_received = None\<rparr>"



section \<open>Missing table members\<close>

text \<open>
  Claim C2. Every CToCpp shim whose function pointer is missing from the handle's table
  returns the default of its return type (\<open>false\<close>, \<open>0\<close>, \<open>NULL\<close>, the
  default-constructed \<open>CefSize\<close>, or plain return for \<open>void\<close>) and leaves the
  world as it was: nothing is invoked, whatever the arguments and whether or not
  \<open>DCHECK\<close> is compiled in.
\<close>

theorem member_missing_returns_default:
  "(CEF_MEMBER_MISSING (on_drag_enter dh) \<longrightarrow>
      CefDragHandlerCToCpp_OnDragEnter br dh browser dragData m w = (w, Returned False))
   \<and> (CEF_MEMBER_MISSING (on_draggable_regions_changed dh) \<longrightarrow>
      CefDragHandlerCToCpp_OnDraggableRegionsChanged br dh browser regions w = (w, Returned ()))
   \<and> (CEF_MEMBER_MISSING (get_preferred_size (base pd)) \<longrightarrow>
      CefPanelDelegateCToCpp_GetPreferredSize br pd view w = (w, Returned CefSize))
   \<and> (CEF_MEMBER_MISSING (get_minimum_size (base pd)) \<longrightarrow>
      CefPanelDelegateCToCpp_GetMinimumSize br pd view w = (w, Returned CefSize))
   \<and> (CEF_MEMBER_MISSING (get_maximum_size (base pd)) \<longrightarrow>
      CefPanelDelegateCToCpp_GetMaximumSize br pd view w = (w, Returned CefSize))
   \<and> (CEF_MEMBER_MISSING (get_height_for_width (base pd)) \<longrightarrow>
      CefPanelDelegateCToCpp_GetHeightForWidth br pd view wd w = (w, Returned 0))
   \<and> (CEF_MEMBER_MISSING (on_parent_view_changed (base pd)) \<longrightarrow>
      CefPanelDelegateCToCpp_OnParentViewChanged br pd view added parent w = (w, Returned ()))
   \<and> (CEF_MEMBER_MISSING (on_child_view_changed (base pd)) \<longrightarrow>
      CefPanelDelegateCToCpp_OnChildViewChanged br pd view added child w = (w, Returned ()))
   \<and> (CEF_MEMBER_MISSING (on_render_thread_created rh) \<longrightarrow>
      CefRenderProcessHandlerCToCpp_OnRenderThreadCreated br rh extra_info w = (w, Returned ()))
   \<and> (CEF_MEMBER_MISSING (on_web_kit_initialized rh) \<longrightarrow>
      CefRenderProcessHandlerCToCpp_OnWebKitInitialized br rh w = (w, Returned ()))
   \<and> (CEF_MEMBER_MISSING (on_browser_created rh) \<longrightarrow>
      CefRenderProcessHandlerCToCpp_OnBrowserCreated br rh browser w = (w, Returned ()))
   \<and> (CEF_MEMBER_MISSING (on_browser_destroyed rh) \<longrightarrow>
      CefRenderProcessHandlerCToCpp_OnBrowserDestroyed br rh browser w = (w, Returned ()))
   \<and> (CEF_MEMBER_MISSING (get_load_handler rh) \<longrightarrow>
      CefRenderProcessHandlerCToCpp_GetLoadHandler br rh w = (w, Returned NULL))
   \<and> (CEF_MEMBER_MISSING (on_before_navigation rh) \<longrightarrow>
      CefRenderProcessHandlerCToCpp_OnBeforeNavigation br rh browser frame request navigation_type is_redirect w = (w, Returned False))
   \<and> (CEF_MEMBER_MISSING (on_context_created rh) \<longrightarrow>
      CefRenderProcessHandlerCToCpp_OnContextCreated br rh browser frame context w = (w, Returned ()))
   \<and> (CEF_MEMBER_MISSING (on_context_released rh) \<longrightarrow>
      CefRenderProcessHandlerCToCpp_OnContextReleased br rh browser frame context w = (w, Returned ()))
   \<and> (CEF_MEMBER_MISSING (on_uncaught_exception rh) \<longrightarrow>
      CefRenderProcessHandlerCToCpp_OnUncaughtException br rh browser frame context exception stackTrace w = (w, Returned ()))
   \<and> (CEF_MEMBER_MISSING (on_focused_node_changed rh) \<longrightarrow>
      CefRenderProcessHandlerCToCpp_OnFocusedNodeChanged br rh browser frame node w = (w, Returned ()))
   \<and> (CEF_MEMBER_MISSING (on_process_message_received rh) \<longrightarrow>
      CefRenderProcessHandlerCToCpp_OnProcessMessageReceived br rh browser source_process message w = (w, Returned False))"
  by (simp add: CefDragHandlerCToCpp_OnDragEnter_def CefDragHandlerCToCpp_OnDraggableRegionsChanged_def CefPanelDelegateCToCpp_GetPreferredSize_def CefPanelDelegateCToCpp_GetMinimumSize_def CefPanelDelegateCToCpp_GetMaximumSize_def CefPanelDelegateCToCpp_GetHeightForWidth_def CefPanelDelegateCToCpp_OnParentViewChanged_def CefPanelDelegateCToCpp_OnChildViewChanged_def)
     (simp add: CefRenderProcessHandlerCToCpp_OnRenderThreadCreated_def CefRenderProcessHandlerCToCpp_OnWebKitInitialized_def CefRenderProcessHandlerCToCpp_OnBrowserCreated_def CefRenderProcessHandlerCToCpp_OnBrowserDestroyed_def CefRenderProcessHandlerCToCpp_GetLoadHandler_def CefRenderProcessHandlerCToCpp_OnBeforeNavigation_def CefRenderProcessHandlerCToCpp_OnContextCreated_def CefRenderProcessHandlerCToCpp_OnContextReleased_def CefRenderProcessHandlerCToCpp_OnUncaughtException_def CefRenderProcessHandlerCToCpp_OnFocusedNodeChanged_def CefRenderProcessHandlerCToCpp_OnProcessMessageReceived_def)

theorem member_missing_returns_default_witness:
  "CefDragHandlerCToCpp_OnDragEnter debug_bridge empty_drag_handler (Some 1) (Some 2) 3 empty_world
     = (empty_world, Returned False)
   \<and> CefPanelDelegateCToCpp_GetPreferredSize debug_bridge empty_panel_delegate (Some 1) empty_world
     = (empty_world, Returned \<lparr>width = 0, height = 0\<rparr>)
   \<and> CefPanelDelegateCToCpp_GetHeightForWidth debug_bridge empty_panel_delegate (Some 1) 30 empty_world
     = (empty_world, Returned 0)
   \<and> CefRenderProcessHandlerCToCpp_GetLoadHandler debug_bridge empty_render_process_handler empty_world
     = (empty_world, Returned NULL)"
  using member_missing_returns_default
    [where br = debug_bridge and w = empty_world and dh = empty_drag_handler
       and pd = empty_panel_delegate and rh = empty_render_process_handler
       and browser = "Some 1" and dragData = "Some 2" and m = 3 and view = "Some 1" and wd = 30]
  by (simp add: CEF_MEMBER_MISSING_def empty_drag_handler_def empty_panel_delegate_def
        empty_render_process_handler_def CefSize_def)


section \<open>Null required arguments\<close>

text \<open>
  One lemma for each shim that verifies a parameter: with a required pointer null the
  world is left as it was, and the outcome is the default result or, where the check is
  compiled in and reached, the failed \<open>DCHECK\<close>.
\<close>

lemma OnDragEnter_null:
  "browser = NULL \<or> dragData = NULL \<longrightarrow>
      fst (CefDragHandlerCToCpp_OnDragEnter br dh browser dragData m w) = w
      \<and> (if DCHECK_IS_ON br \<and> \<not> CEF_MEMBER_MISSING (on_drag_enter dh)
         then is_Fatal (snd (CefDragHandlerCToCpp_OnDragEnter br dh browser dragData m w))
         else snd (CefDragHandlerCToCpp_OnDragEnter br dh browser dragData m w) = Returned False)"
  by (simp add: CefDragHandlerCToCpp_OnDragEnter_def DCHECK_def)

lemma OnDraggableRegionsChanged_null:
  "browser = NULL \<longrightarrow>
      fst (CefDragHandlerCToCpp_OnDraggableRegionsChanged br dh browser regions w) = w
      \<and> (if DCHECK_IS_ON br \<and> \<not> CEF_MEMBER_MISSING (on_draggable_regions_changed dh)
         then is_Fatal (snd (CefDragHandlerCToCpp_OnDraggableRegionsChanged br dh browser regions w))
         else snd (CefDragHandlerCToCpp_OnDraggableRegionsChanged br dh browser regions w) = Returned ())"
  by (simp add: CefDragHandlerCToCpp_OnDraggableRegionsChanged_def DCHECK_def)

lemma GetPreferredSize_null:
  "view = NULL \<longrightarrow>
      fst (CefPanelDelegateCToCpp_GetPreferredSize br pd view w) = w
      \<and> (if DCHECK_IS_ON br \<and> \<not> CEF_MEMBER_MISSING (get_preferred_size (base pd))
         then is_Fatal (snd (CefPanelDelegateCToCpp_GetPreferredSize br pd view w))
         else snd (CefPanelDelegateCToCpp_GetPreferredSize br pd view w) = Returned CefSize)"
  by (simp add: CefPanelDelegateCToCpp_GetPreferredSize_def DCHECK_def)

lemma GetMinimumSize_null:
  "view = NULL \<longrightarrow>
      fst (CefPanelDelegateCToCpp_GetMinimumSize br pd view w) = w
      \<and> (if DCHECK_IS_ON br \<and> \<not> CEF_MEMBER_MISSING (get_minimum_size (base pd))
         then is_Fatal (snd (CefPanelDelegateCToCpp_GetMinimumSize br pd view w))
         else snd (CefPanelDelegateCToCpp_GetMinimumSize br pd view w) = Returned CefSize)"
  by (simp add: CefPanelDelegateCToCpp_GetMinimumSize_def DCHECK_def)

lemma GetMaximumSize_null:
  "view = NULL \<longrightarrow>
      fst (CefPanelDelegateCToCpp_GetMaximumSize br pd view w) = w
      \<and> (if DCHECK_IS_ON br \<and> \<not> CEF_MEMBER_MISSING (get_maximum_size (base pd))
         then is_Fatal (snd (CefPanelDelegateCToCpp_GetMaximumSize br pd view w))
         else snd (CefPanelDelegateCToCpp_GetMaximumSize br pd view w) = Returned CefSize)"
  by (simp add: CefPanelDelegateCToCpp_GetMaximumSize_def DCHECK_def)

lemma GetHeightForWidth_null:
  "view = NULL \<longrightarrow>
      fst (CefPanelDelegateCToCpp_GetHeightForWidth br pd view wd w) = w
      \<and> (if DCHECK_IS_ON br \<and> \<not> CEF_MEMBER_MISSING (get_height_for_width (base pd))
         then is_Fatal (snd (CefPanelDelegateCToCpp_GetHeightForWidth br pd view wd w))
         else snd (CefPanelDelegateCToCpp_GetHeightForWidth br pd view wd w) = Returned 0)"
  by (simp add: CefPanelDelegateCToCpp_GetHeightForWidth_def DCHECK_def)

lemma OnParentViewChanged_null:
  "view = NULL \<or> parent = NULL \<longrightarrow>
      fst (CefPanelDelegateCToCpp_OnParentViewChanged br pd view added parent w) = w
      \<and> (if DCHECK_IS_ON br \<and> \<not> CEF_MEMBER_MISSING (on_parent_view_changed (base pd))
         then is_Fatal (snd (CefPanelDelegateCToCpp_OnParentViewChanged br pd view added parent w))
         else snd (CefPanelDelegateCToCpp_OnParentViewChanged br pd view added parent w) = Returned ())"
  by (simp add: CefPanelDelegateCToCpp_OnParentViewChanged_def DCHECK_def)

lemma OnChildViewChanged_null:
  "view = NULL \<or> child = NULL \<longrightarrow>
      fst (CefPanelDelegateCToCpp_OnChildViewChanged br pd view added child w) = w
      \<and> (if DCHECK_IS_ON br \<and> \<not> CEF_MEMBER_MISSING (on_child_view_changed (base pd))
         then is_Fatal (snd (CefPanelDelegateCToCpp_OnChildViewChanged br pd view added child w))
         else snd (CefPanelDelegateCToCpp_OnChildViewChanged br pd view added child w) = Returned ())"
  by (simp add: CefPanelDelegateCToCpp_OnChildViewChanged_def DCHECK_def)

lemma OnRenderThreadCreated_null:
  "extra_info = NULL \<longrightarrow>
      fst (CefRenderProcessHandlerCToCpp_OnRenderThreadCreated br rh extra_info w) = w
      \<and> (if DCHECK_IS_ON br \<and> \<not> CEF_MEMBER_MISSING (on_render_thread_created rh)
         then is_Fatal (snd (CefRenderProcessHandlerCToCpp_OnRenderThreadCreated br rh extra_info w))
         else snd (CefRenderProcessHandlerCToCpp_OnRenderThreadCreated br rh extra_info w) = Returned ())"
  by (simp add: CefRenderProcessHandlerCToCpp_OnRenderThreadCreated_def DCHECK_def)

lemma OnBrowserCreated_null:
  "browser = NULL \<longrightarrow>
      fst (CefRenderProcessHandlerCToCpp_OnBrowserCreated br rh browser w) = w
      \<and> (if DCHECK_IS_ON br \<and> \<not> CEF_MEMBER_MISSING (on_browser_created rh)
         then is_Fatal (snd (CefRenderProcessHandlerCToCpp_OnBrowserCreated br rh browser w))
         else snd (CefRenderProcessHandlerCToCpp_OnBrowserCreated br rh browser w) = Returned ())"
  by (simp add: CefRenderProcessHandlerCToCpp_OnBrowserCreated_def DCHECK_def)

lemma OnBrowserDestroyed_null:
  "browser = NULL \<longrightarrow>
      fst (CefRenderProcessHandlerCToCpp_OnBrowserDestroyed br rh browser w) = w
      \<and> (if DCHECK_IS_ON br \<and> \<not> CEF_MEMBER_MISSING (on_browser_destroyed rh)
         then is_Fatal (snd (CefRenderProcessHandlerCToCpp_OnBrowserDestroyed br rh browser w))
         else snd (CefRenderProcessHandlerCToCpp_OnBrowserDestroyed br rh browser w) = Returned ())"
  by (simp add: CefRenderProcessHandlerCToCpp_OnBrowserDestroyed_def DCHECK_def)

lemma OnBeforeNavigation_null:
  "browser = NULL \<or> frame = NULL \<or> request = NULL \<longrightarrow>
      fst (CefRenderProcessHandlerCToCpp_OnBeforeNavigation br rh browser frame request navigation_type is_redirect w) = w
      \<and> (if DCHECK_IS_ON br \<and> \<not> CEF_MEMBER_MISSING (on_before_navigation rh)
         then is_Fatal (snd (CefRenderProcessHandlerCToCpp_OnBeforeNavigation br rh browser frame request navigation_type is_redirect w))
         else snd (CefRenderProcessHandlerCToCpp_OnBeforeNavigation br rh browser frame request navigation_type is_redirect w) = Returned False)"
  by (simp add: CefRenderProcessHandlerCToCpp_OnBeforeNavigation_def DCHECK_def)

lemma OnContextCreated_null:
  "browser = NULL \<or> frame = NULL \<or> context = NULL \<longrightarrow>
      fst (CefRenderProcessHandlerCToCpp_OnContextCreated br rh browser frame context w) = w
      \<and> (if DCHECK_IS_ON br \<and> \<not> CEF_MEMBER_MISSING (on_context_created rh)
         then is_Fatal (snd (CefRenderProcessHandlerCToCpp_OnContextCreated br rh browser frame context w))
         else snd (CefRenderProcessHandlerCToCpp_OnContextCreated br rh browser frame context w) = Returned ())"
  by (simp add: CefRenderProcessHandlerCToCpp_OnContextCreated_def DCHECK_def)

lemma OnContextReleased_null:
  "browser = NULL \<or> frame = NULL \<or> context = NULL \<longrightarrow>
      fst (CefRenderProcessHandlerCToCpp_OnContextReleased br rh browser frame context w) = w
      \<and> (if DCHECK_IS_ON br \<and> \<not> CEF_MEMBER_MISSING (on_context_released rh)
         then is_Fatal (snd (CefRenderProcessHandlerCToCpp_OnContextReleased br rh browser frame context w))
         else snd (CefRenderProcessHandlerCToCpp_OnContextReleased br rh browser frame context w) = Returned ())"
  by (simp add: CefRenderProcessHandlerCToCpp_OnContextReleased_def DCHECK_def)

lemma OnUncaughtException_null:
  "browser = NULL \<or> frame = NULL \<or> context = NULL \<or> exception = NULL \<or> stackTrace = NULL \<longrightarrow>
      fst (CefRenderProcessHandlerCToCpp_OnUncaughtException br rh browser frame context exception stackTrace w) = w
      \<and> (if DCHECK_IS_ON br \<and> \<not> CEF_MEMBER_MISSING (on_uncaught_exception rh)
         then is_Fatal (snd (CefRenderProcessHandlerCToCpp_OnUncaughtException br rh browser frame context exception stackTrace w))
         else snd (CefRenderProcessHandlerCToCpp_OnUncaughtException br rh browser frame context exception stackTrace w) = Returned ())"
  by (simp add: CefRenderProcessHandlerCToCpp_OnUncaughtException_def DCHECK_def)

lemma OnFocusedNodeChanged_null:
  "browser = NULL \<longrightarrow>
      fst (CefRenderProcessHandlerCToCpp_OnFocusedNodeChanged br rh browser frame node w) = w
      \<and> (if DCHECK_IS_ON br \<and> \<not> CEF_MEMBER_MISSING (on_focused_node_changed rh)
         then is_Fatal (snd (CefRenderProcessHandlerCToCpp_OnFocusedNodeChanged br rh browser frame node w))
         else snd (CefRenderProcessHandlerCToCpp_OnFocusedNodeChanged br rh browser frame node w) = Returned ())"
  by (simp add: CefRenderProcessHandlerCToCpp_OnFocusedNodeChanged_def DCHECK_def)

lemma OnProcessMessageReceived_null:
  "browser = NULL \<or> message = NULL \<longrightarrow>
      fst (CefRenderProcessHandlerCToCpp_OnProcessMessageReceived br rh browser source_process message w) = w
      \<and> (if DCHECK_IS_ON br \<and> \<not> CEF_MEMBER_MISSING (on_process_message_received rh)
         then is_Fatal (snd (CefRenderProcessHandlerCToCpp_OnProcessMessageReceived br rh browser source_process message w))
         else snd (CefRenderProcessHandlerCToCpp_OnProcessMessageReceived br rh browser source_process message w) = Returned False)"
  by (simp add: CefRenderProcessHandlerCToCpp_OnProcessMessageReceived_def DCHECK_def)

lemma auth_callback_cont_null:
  "self = NULL \<or> username = None \<or> password = None \<longrightarrow>
      fst (auth_callback_cont br self username password w) = w
      \<and> (if DCHECK_IS_ON br
         then is_Fatal (snd (auth_callback_cont br self username password w))
         else snd (auth_callback_cont br self username password w) = Returned ())"
  by (simp add: auth_callback_cont_def DCHECK_def)

lemma auth_callback_cancel_null:
  "self = NULL \<longrightarrow>
      fst (auth_callback_cancel br self w) = w
      \<and> (if DCHECK_IS_ON br
         then is_Fatal (snd (auth_callback_cancel br self w))
         else snd (auth_callback_cancel br self w) = Returned ())"
  by (simp add: auth_callback_cancel_def DCHECK_def)

text \<open>
  Claim C1, as the code has it. When the self handle or a parameter verified as required
  is null, no shim reaches its forwarded call: the world, and with it the log of calls
  through the table or the virtual method, is left as it was. Where \<open>DCHECK\<close> is
  compiled out the shim returns its default result (\<open>false\<close>, \<open>0\<close>, the
  default-constructed \<open>CefSize\<close>, plain return for \<open>void\<close>). Where
  \<open>DCHECK\<close> is compiled in, the failed check is fatal instead, unless the table
  member of a CToCpp shim is missing, which is tested first and returns the default.
\<close>

theorem required_null_not_forwarded:
  "(browser = NULL \<or> dragData = NULL \<longrightarrow>
      fst (CefDragHandlerCToCpp_OnDragEnter br dh browser dragData m w) = w
      \<and> (if DCHECK_IS_ON br \<and> \<not> CEF_MEMBER_MISSING (on_drag_enter dh)
         then is_Fatal (snd (CefDragHandlerCToCpp_OnDragEnter br dh browser dragData m w))
         else snd (CefDragHandlerCToCpp_OnDragEnter br dh browser dragData m w) = Returned False))
   \<and> (browser = NULL \<longrightarrow>
      fst (CefDragHandlerCToCpp_OnDraggableRegionsChanged br dh browser regions w) = w
      \<and> (if DCHECK_IS_ON br \<and> \<not> CEF_MEMBER_MISSING (on_draggable_regions_changed dh)
         then is_Fatal (snd (CefDragHandlerCToCpp_OnDraggableRegionsChanged br dh browser regions w))
         else snd (CefDragHandlerCToCpp_OnDraggableRegionsChanged br dh browser regions w) = Returned ()))
   \<and> (view = NULL \<longrightarrow>
      fst (CefPanelDelegateCToCpp_GetPreferredSize br pd view w) = w
      \<and> (if DCHECK_IS_ON br \<and> \<not> CEF_MEMBER_MISSING (get_preferred_size (base pd))
         then is_Fatal (snd (CefPanelDelegateCToCpp_GetPreferredSize br pd view w))
         else snd (CefPanelDelegateCToCpp_GetPreferredSize br pd view w) = Returned CefSize))
   \<and> (view = NULL \<longrightarrow>
      fst (CefPanelDelegateCToCpp_GetMinimumSize br pd view w) = w
      \<and> (if DCHECK_IS_ON br \<and> \<not> CEF_MEMBER_MISSING (get_minimum_size (base pd))
         then is_Fatal (snd (CefPanelDelegateCToCpp_GetMinimumSize br pd view w))
         else snd (CefPanelDelegateCToCpp_GetMinimumSize br pd view w) = Returned CefSize))
   \<and> (view = NULL \<longrightarrow>
      fst (CefPanelDelegateCToCpp_GetMaximumSize br pd view w) = w
      \<and> (if DCHECK_IS_ON br \<and> \<not> CEF_MEMBER_MISSING (get_maximum_size (base pd))
         then is_Fatal (snd (CefPanelDelegateCToCpp_GetMaximumSize br pd view w))
         else snd (CefPanelDelegateCToCpp_GetMaximumSize br pd view w) = Returned CefSize))
   \<and> (view = NULL \<longrightarrow>
      fst (CefPanelDelegateCToCpp_GetHeightForWidth br pd view wd w) = w
      \<and> (if DCHECK_IS_ON br \<and> \<not> CEF_MEMBER_MISSING (get_height_for_width (base pd))
         then is_Fatal (snd (CefPanelDelegateCToCpp_GetHeightForWidth br pd view wd w))
         else snd (CefPanelDelegateCToCpp_GetHeightForWidth br pd view wd w) = Returned 0))
   \<and> (view = NULL \<or> parent = NULL \<longrightarrow>
      fst (CefPanelDelegateCToCpp_OnParentViewChanged br pd view added parent w) = w
      \<and> (if DCHECK_IS_ON br \<and> \<not> CEF_MEMBER_MISSING (on_parent_view_changed (base pd))
         then is_Fatal (snd (CefPanelDelegateCToCpp_OnParentViewChanged br pd view added parent w))
         else snd (CefPanelDelegateCToCpp_OnParentViewChanged br pd view added parent w) = Returned ()))
   \<and> (view = NULL \<or> child = NULL \<longrightarrow>
      fst (CefPanelDelegateCToCpp_OnChildViewChanged br pd view added child w) = w
      \<and> (if DCHECK_IS_ON br \<and> \<not> CEF_MEMBER_MISSING (on_child_view_changed (base pd))
         then is_Fatal (snd (CefPanelDelegateCToCpp_OnChildViewChanged br pd view added child w))
         else snd (CefPanelDelegateCToCpp_OnChildViewChanged br pd view added child w) = Returned ()))
   \<and> (extra_info = NULL \<longrightarrow>
      fst (CefRenderProcessHandlerCToCpp_OnRenderThreadCreated br rh extra_info w) = w
      \<and> (if DCHECK_IS_ON br \<and> \<not> CEF_MEMBER_MISSING (on_render_thread_created rh)
         then is_Fatal (snd (CefRenderProcessHandlerCToCpp_OnRenderThreadCreated br rh extra_info w))
         else snd (CefRenderProcessHandlerCToCpp_OnRenderThreadCreated br rh extra_info w) = Returned ()))
   \<and> (browser = NULL \<longrightarrow>
      fst (CefRenderProcessHandlerCToCpp_OnBrowserCreated br rh browser w) = w
      \<and> (if DCHECK_IS_ON br \<and> \<not> CEF_MEMBER_MISSING (on_browser_created rh)
         then is_Fatal (snd (CefRenderProcessHandlerCToCpp_OnBrowserCreated br rh browser w))
         else snd (CefRenderProcessHandlerCToCpp_OnBrowserCreated br rh browser w) = Returned ()))
   \<and> (browser = NULL \<longrightarrow>
      fst (CefRenderProcessHandlerCToCpp_OnBrowserDestroyed br rh browser w) = w
      \<and> (if DCHECK_IS_ON br \<and> \<not> CEF_MEMBER_MISSING (on_browser_destroyed rh)
         then is_Fatal (snd (CefRenderProcessHandlerCToCpp_OnBrowserDestroyed br rh browser w))
         else snd (CefRenderProcessHandlerCToCpp_OnBrowserDestroyed br rh browser w) = Returned ()))
   \<and> (browser = NULL \<or> frame = NULL \<or> request = NULL \<longrightarrow>
      fst (CefRenderProcessHandlerCToCpp_OnBeforeNavigation br rh browser frame request navigation_type is_redirect w) = w
      \<and> (if DCHECK_IS_ON br \<and> \<not> CEF_MEMBER_MISSING (on_before_navigation rh)
         then is_Fatal (snd (CefRenderProcessHandlerCToCpp_OnBeforeNavigation br rh browser frame request navigation_type is_redirect w))
         else snd (CefRenderProcessHandlerCToCpp_OnBeforeNavigation br rh browser frame request navigation_type is_redirect w) = Returned False))
   \<and> (browser = NULL \<or> frame = NULL \<or> context = NULL \<longrightarrow>
      fst (CefRenderProcessHandlerCToCpp_OnContextCreated br rh browser frame context w) = w
      \<and> (if DCHECK_IS_ON br \<and> \<not> CEF_MEMBER_MISSING (on_context_created rh)
         then is_Fatal (snd (CefRenderProcessHandlerCToCpp_OnContextCreated br rh browser frame context w))
         else snd (CefRenderProcessHandlerCToCpp_OnContextCreated br rh browser frame context w) = Returned ()))
   \<and> (browser = NULL \<or> frame = NULL \<or> context = NULL \<longrightarrow>
      fst (CefRenderProcessHandlerCToCpp_OnContextReleased br rh browser frame context w) = w
      \<and> (if DCHECK_IS_ON br \<and> \<not> CEF_MEMBER_MISSING (on_context_released rh)
         then is_Fatal (snd (CefRenderProcessHandlerCToCpp_OnContextReleased br rh browser frame context w))
         else snd (CefRenderProcessHandlerCToCpp_OnContextReleased br rh browser frame context w) = Returned ()))
   \<and> (browser = NULL \<or> frame = NULL \<or> context = NULL \<or> exception = NULL \<or> stackTrace = NULL \<longrightarrow>
      fst (CefRenderProcessHandlerCToCpp_OnUncaughtException br rh browser frame context exception stackTrace w) = w
      \<and> (if DCHECK_IS_ON br \<and> \<not> CEF_MEMBER_MISSING (on_uncaught_exception rh)
         then is_Fatal (snd (CefRenderProcessHandlerCToCpp_OnUncaughtException br rh browser frame context exception stackTrace w))
         else snd (CefRenderProcessHandlerCToCpp_OnUncaughtException br rh browser frame context exception stackTrace w) = Returned ()))
   \<and> (browser = NULL \<longrightarrow>
      fst (CefRenderProcessHandlerCToCpp_OnFocusedNodeChanged br rh browser frame node w) = w
      \<and> (if DCHECK_IS_ON br \<and> \<not> CEF_MEMBER_MISSING (on_focused_node_changed rh)
         then is_Fatal (snd (CefRenderProcessHandlerCToCpp_OnFocusedNodeChanged br rh browser frame node w))
         else snd (CefRenderProcessHandlerCToCpp_OnFocusedNodeChanged br rh browser frame node w) = Returned ()))
   \<and> (browser = NULL \<or> message = NULL \<longrightarrow>
      fst (CefRenderProcessHandlerCToCpp_OnProcessMessageReceived br rh browser source_process message w) = w
      \<and> (if DCHECK_IS_ON br \<and> \<not> CEF_MEMBER_MISSING (on_process_message_received rh)
         then is_Fatal (snd (CefRenderProcessHandlerCToCpp_OnProcessMessageReceived br rh browser source_process message w))
         else snd (CefRenderProcessHandlerCToCpp_OnProcessMessageReceived br rh browser source_process message w) = Returned False))
   \<and> (self = NULL \<or> username = None \<or> password = None \<longrightarrow>
      fst (auth_callback_cont br self username password w) = w
      \<and> (if DCHECK_IS_ON br
         then is_Fatal (snd (auth_callback_cont br self username password w))
         else snd (auth_callback_cont br self username password w) = Returned ()))
   \<and> (self = NULL \<longrightarrow>
      fst (auth_callback_cancel br self w) = w
      \<and> (if DCHECK_IS_ON br
         then is_Fatal (snd (auth_callback_cancel br self w))
         else snd (auth_callback_cancel br self w) = Returned ()))"
  by (intro conjI
        OnDragEnter_null OnDraggableRegionsChanged_null GetPreferredSize_null
        GetMinimumSize_null GetMaximumSize_null GetHeightForWidth_null
        OnParentViewChanged_null OnChildViewChanged_null OnRenderThreadCreated_null
        OnBrowserCreated_null OnBrowserDestroyed_null OnBeforeNavigation_null
        OnContextCreated_null OnContextReleased_null OnUncaughtException_null
        OnFocusedNodeChanged_null OnProcessMessageReceived_null auth_callback_cont_null
        auth_callback_cancel_null)

theorem required_null_not_forwarded_witness:
  "CefDragHandlerCToCpp_OnDragEnter release_bridge full_drag_handler NULL (Some 2) 1 empty_world
     = (empty_world, Returned False)
   \<and> CefPanelDelegateCToCpp_GetPreferredSize release_bridge full_panel_delegate NULL empty_world
     = (empty_world, Returned \<lparr>width = 0, height = 0\<rparr>)
   \<and> auth_callback_cont release_bridge NULL (Some ''user'') (Some ''secret'') empty_world
     = (empty_world, Returned ())"
  using required_null_not_forwarded
    [where br = release_bridge and w = empty_world and dh = full_drag_handler
       and pd = full_panel_delegate and browser = NULL and dragData = "Some 2" and m = 1
       and view = NULL and self = NULL and username = "Some ''user''"
       and password = "Some ''secret''"]
  by (simp add: release_bridge_def debug_bridge_def CefSize_def prod_eq_iff)

text \<open>
  The claim as first stated, that the default is returned whenever a required argument is
  null, fails where \<open>DCHECK\<close> is compiled in.
\<close>

theorem required_null_debug_counterexample:
  "CefDragHandlerCToCpp_OnDragEnter debug_bridge full_drag_handler NULL (Some 2) 1 empty_world
     \<noteq> (empty_world, Returned False)"
  by (simp add: CefDragHandlerCToCpp_OnDragEnter_def DCHECK_def CEF_MEMBER_MISSING_def
        debug_bridge_def full_drag_handler_def)

section \<open>Downcast recovery\<close>

text \<open>
  Claim C3, as the code has it. \<open>UnwrapDerived\<close> of \<open>CefPanelDelegateCToCpp\<close>
  routes the tag \<open>WT_WINDOW_DELEGATE\<close> to \<open>CefWindowDelegateCToCpp::Unwrap\<close> and
  returns what that returns. For every other tag, and for every tag in the three classes
  with no derived type, the call ends in \<open>NOTREACHED\<close>: the assertion failure where
  \<open>DCHECK\<close> is compiled in, and \<open>NULL\<close> where it is compiled out. It never
  returns a non-null pointer for a tag outside the chain.
\<close>

theorem unwrap_derived_routes:
  "(type = WT_WINDOW_DELEGATE \<longrightarrow>
      CefPanelDelegateCToCpp_UnwrapDerived br type c
        = Returned (CToCpp_Unwrap br CefWindowDelegateCToCpp c))
   \<and> (type \<noteq> WT_WINDOW_DELEGATE \<longrightarrow>
      (if DCHECK_IS_ON br
       then CefPanelDelegateCToCpp_UnwrapDerived br type c = Fatal ''Unexpected class type''
       else CefPanelDelegateCToCpp_UnwrapDerived br type c = Returned NULL))
   \<and> (if DCHECK_IS_ON br
       then CefDragHandlerCToCpp_UnwrapDerived br type c = Fatal ''Unexpected class type''
          \<and> CefRenderProcessHandlerCToCpp_UnwrapDerived br type c = Fatal ''Unexpected class type''
          \<and> CefAuthCallbackCppToC_UnwrapDerived br type c = Fatal ''Unexpected class type''
       else CefDragHandlerCToCpp_UnwrapDerived br type c = Returned NULL
          \<and> CefRenderProcessHandlerCToCpp_UnwrapDerived br type c = Returned NULL
          \<and> CefAuthCallbackCppToC_UnwrapDerived br type c = Returned NULL)
   \<and> (type \<noteq> WT_WINDOW_DELEGATE \<longrightarrow>
      CefPanelDelegateCToCpp_UnwrapDerived br type c \<noteq> Returned (Some a))
   \<and> CefDragHandlerCToCpp_UnwrapDerived br type c \<noteq> Returned (Some a)
   \<and> CefRenderProcessHandlerCToCpp_UnwrapDerived br type c \<noteq> Returned (Some a)
   \<and> CefAuthCallbackCppToC_UnwrapDerived br type c \<noteq> Returned (Some a)"
  by (simp add: CefPanelDelegateCToCpp_UnwrapDerived_def CefDragHandlerCToCpp_UnwrapDerived_def
        CefRenderProcessHandlerCToCpp_UnwrapDerived_def CefAuthCallbackCppToC_UnwrapDerived_def
        NOTREACHED_def)

theorem unwrap_derived_routes_witness:
  "CefPanelDelegateCToCpp_UnwrapDerived debug_bridge WT_WINDOW_DELEGATE (Some 7)
     = Returned (Some 407)
   \<and> CefPanelDelegateCToCpp_UnwrapDerived debug_bridge WT_DRAG_HANDLER (Some 7)
     = Fatal ''Unexpected class type''"
  using unwrap_derived_routes [where br = debug_bridge and type = WT_WINDOW_DELEGATE and c = "Some 7"]
    unwrap_derived_routes [where br = debug_bridge and type = WT_DRAG_HANDLER and c = "Some 7"]
  by (simp add: debug_bridge_def)

text \<open>
  The claim as first stated, that every tag outside the chain signals the unrecoverable
  error, fails where \<open>DCHECK\<close> is compiled out: the call returns \<open>NULL\<close>.
\<close>

theorem unwrap_derived_release_counterexample:
  "\<not> is_Fatal (CefPanelDelegateCToCpp_UnwrapDerived release_bridge WT_DRAG_HANDLER (Some 7))"
  by (simp add: CefPanelDelegateCToCpp_UnwrapDerived_def NOTREACHED_def release_bridge_def
        debug_bridge_def)

section \<open>The wrap and unwrap round trip\<close>

lemma find_handle_distinct:
  "distinct (map fst es) \<Longrightarrow> (h, obj, tag) \<in> set es \<Longrightarrow>
   find (\<lambda>(h', obj', tag'). h' = h) es = Some (h, obj, tag)"
proof (induction es)
  case Nil
  then show ?case by simp
next
  case (Cons e es)
  obtain h0 obj0 tag0 where e: "e = (h0, obj0, tag0)" by (cases e)
  show ?case
  proof (cases "h0 = h")
    case True
    with Cons.prems e have "obj0 = obj \<and> tag0 = tag"
      by (auto simp: image_iff)
    with True e show ?thesis by simp
  next
    case False
    with Cons e show ?thesis by auto
  qed
qed

lemma wrapper_of_handle_of:
  assumes "table_ok t" and "handle_of t obj = Some h"
  shows "wrapper_of t h = Some obj"
proof -
  from assms(2) obtain e where f: "find (\<lambda>(h, obj', tag). obj' = obj) (entries t) = Some e"
    and h: "h = fst e"
    by (auto simp: handle_of_def)
  from f have mem: "e \<in> set (entries t)" and hit: "(\<lambda>(h, obj', tag). obj' = obj) e"
    by (auto simp: find_Some_iff in_set_conv_nth)
  obtain tag where e: "e = (h, obj, tag)"
    using h hit by (cases e) auto
  from assms(1) have "distinct (map fst (entries t))"
    by (simp add: table_ok_def)
  then have "find (\<lambda>(h', obj', tag'). h' = h) (entries t) = Some (h, obj, tag)"
    using mem e by (intro find_handle_distinct) simp_all
  then show ?thesis
    by (simp add: wrapper_of_def)
qed

lemma table_ok_empty: "table_ok empty_table"
  by (simp add: table_ok_def empty_table_def)

lemma table_ok_wrap: "table_ok t \<Longrightarrow> table_ok (fst (wrap tag obj t))"
proof (cases "handle_of t obj")
  case None
  assume ok: "table_ok t"
  then have "next_handle t \<notin> fst ` set (entries t)"
    by (auto simp: table_ok_def list_all_iff)
  moreover from ok have "list_all (\<lambda>(h, obj, tag). h < Suc (next_handle t)) (entries t)"
    by (auto simp: table_ok_def list_all_iff)
  ultimately show ?thesis
    using None ok by (simp add: wrap_def table_ok_def Let_def)
next
  case (Some h)
  assume "table_ok t"
  with Some show ?thesis by (simp add: wrap_def)
qed

text \<open>
  Claim C5. In a table built by wrapping, unwrapping the handle that \<open>wrap\<close> returns
  for a managed wrapper yields that wrapper, whether the handle was created by this call
  or reused from an earlier one.
\<close>

theorem unwrap_wrap_identity:
  assumes "table_ok t"
  shows "unwrap br (snd (wrap tag obj t)) (fst (wrap tag obj t)) = Returned (Some obj)"
proof (cases "handle_of t obj")
  case None
  then show ?thesis
    by (simp add: wrap_def unwrap_def wrapper_of_def Let_def)
next
  case (Some h)
  with assms have "wrapper_of t h = Some obj"
    by (rule wrapper_of_handle_of)
  with Some show ?thesis
    by (simp add: wrap_def unwrap_def)
qed

theorem unwrap_wrap_identity_witness:
  "table_ok (fst (wrap WT_DRAG_HANDLER 42 empty_table))
   \<and> unwrap debug_bridge
        (snd (wrap WT_AUTH_CALLBACK 43 (fst (wrap WT_DRAG_HANDLER 42 empty_table))))
        (fst (wrap WT_AUTH_CALLBACK 43 (fst (wrap WT_DRAG_HANDLER 42 empty_table))))
      = Returned (Some 43)
   \<and> unwrap debug_bridge
        (snd (wrap WT_DRAG_HANDLER 42 (fst (wrap WT_DRAG_HANDLER 42 empty_table))))
        (fst (wrap WT_DRAG_HANDLER 42 (fst (wrap WT_DRAG_HANDLER 42 empty_table))))
      = Returned (Some 42)"
proof -
  have ok: "table_ok (fst (wrap WT_DRAG_HANDLER 42 empty_table))"
    by (simp add: wrap_def handle_of_def empty_table_def table_ok_def Let_def)
  show ?thesis
    using ok unwrap_wrap_identity [OF ok, of debug_bridge WT_AUTH_CALLBACK 43]
      unwrap_wrap_identity [OF ok, of debug_bridge WT_DRAG_HANDLER 42]
    by simp
qed

section \<open>The transient array of OnDraggableRegionsChanged\<close>








section \<open>An empty vector of regions\<close>

text \<open>
  Claim C9. Called with an empty vector, a non-null browser and the function pointer
  present, the shim allocates no array: the only event is the call of the C callback,
  with count 0 and a null array pointer, and heap and allocator are left as they were.
  The shim ends as the callback does, so it returns whenever the callback returns.
\<close>

theorem empty_regions_no_array:
  "\<not> CEF_MEMBER_MISSING (on_draggable_regions_changed dh) \<and> browser \<noteq> NULL \<longrightarrow>
   CefDragHandlerCToCpp_OnDraggableRegionsChanged br dh browser [] w =
     (w\<lparr>trace := trace w @
          [Invoke ''on_draggable_regions_changed''
             [APtr (CppToC_Wrap br CefBrowserCppToC browser), ASize 0, ARegions NULL None]]\<rparr>,
      the (on_draggable_regions_changed dh) (CppToC_Wrap br CefBrowserCppToC browser) 0 NULL)"
  by (auto simp: CefDragHandlerCToCpp_OnDraggableRegionsChanged_def DCHECK_def invoke_def
        Let_def split: outcome.split)

theorem empty_regions_no_array_witness:
  "CefDragHandlerCToCpp_OnDraggableRegionsChanged debug_bridge full_drag_handler (Some 1) []
     empty_world
   = (\<lparr>trace = [Invoke ''on_draggable_regions_changed''
                  [APtr (Some 101), ASize 0, ARegions NULL None]],
       heap = Map.empty, next_addr = 0\<rparr>, Returned ())"
  using empty_regions_no_array
    [where br = debug_bridge and dh = full_drag_handler and browser = "Some 1"
       and w = empty_world]
  by (simp add: CEF_MEMBER_MISSING_def full_drag_handler_def empty_world_def debug_bridge_def)

section \<open>Forwarded calls\<close>

text \<open>
  With the table member present and every verified pointer non-null, a shim makes exactly
  one call through the table, with the wrapped arguments, and converts what the callee
  returned.
\<close>

lemma OnDragEnter_forwarded:
  "\<not> CEF_MEMBER_MISSING (on_drag_enter dh) \<Longrightarrow> browser \<noteq> NULL \<Longrightarrow> dragData \<noteq> NULL \<Longrightarrow>
   CefDragHandlerCToCpp_OnDragEnter br dh browser dragData m w =
     (w\<lparr>trace := trace w @ [Invoke ''on_drag_enter'' [APtr (CppToC_Wrap br CefBrowserCppToC browser), APtr (CppToC_Wrap br CefDragDataCppToC dragData), AInt m]]\<rparr>,
      Returned (the (on_drag_enter dh) (CppToC_Wrap br CefBrowserCppToC browser) (CppToC_Wrap br CefDragDataCppToC dragData) m \<noteq> 0))"
  by (auto simp: CefDragHandlerCToCpp_OnDragEnter_def DCHECK_def invoke_def Let_def)

lemma OnBeforeNavigation_forwarded:
  "\<not> CEF_MEMBER_MISSING (on_before_navigation rh) \<Longrightarrow> browser \<noteq> NULL \<Longrightarrow> frame \<noteq> NULL \<Longrightarrow> request \<noteq> NULL \<Longrightarrow>
   CefRenderProcessHandlerCToCpp_OnBeforeNavigation br rh browser frame request navigation_type is_redirect w =
     (w\<lparr>trace := trace w @ [Invoke ''on_before_navigation'' [APtr (CppToC_Wrap br CefBrowserCppToC browser), APtr (CppToC_Wrap br CefFrameCppToC frame), APtr (CppToC_Wrap br CefRequestCppToC request), AInt navigation_type, AInt (bool_to_int is_redirect)]]\<rparr>,
      Returned (the (on_before_navigation rh) (CppToC_Wrap br CefBrowserCppToC browser) (CppToC_Wrap br CefFrameCppToC frame) (CppToC_Wrap br CefRequestCppToC request) navigation_type (bool_to_int is_redirect) \<noteq> 0))"
  by (auto simp: CefRenderProcessHandlerCToCpp_OnBeforeNavigation_def DCHECK_def invoke_def Let_def)

lemma OnProcessMessageReceived_forwarded:
  "\<not> CEF_MEMBER_MISSING (on_process_message_received rh) \<Longrightarrow> browser \<noteq> NULL \<Longrightarrow> message \<noteq> NULL \<Longrightarrow>
   CefRenderProcessHandlerCToCpp_OnProcessMessageReceived br rh browser source_process message w =
     (w\<lparr>trace := trace w @ [Invoke ''on_process_message_received'' [APtr (CppToC_Wrap br CefBrowserCppToC browser), AInt source_process, APtr (CppToC_Wrap br CefProcessMessageCppToC message)]]\<rparr>,
      Returned (the (on_process_message_received rh) (CppToC_Wrap br CefBrowserCppToC browser) source_process (CppToC_Wrap br CefProcessMessageCppToC message) \<noteq> 0))"
  by (auto simp: CefRenderProcessHandlerCToCpp_OnProcessMessageReceived_def DCHECK_def invoke_def Let_def)

lemma GetPreferredSize_forwarded:
  "\<not> CEF_MEMBER_MISSING (get_preferred_size (base pd)) \<Longrightarrow> view \<noteq> NULL \<Longrightarrow>
   CefPanelDelegateCToCpp_GetPreferredSize br pd view w =
     (w\<lparr>trace := trace w @ [Invoke ''get_preferred_size'' [APtr (CppToC_Wrap br CefViewCppToC view)]]\<rparr>,
      Returned (the (get_preferred_size (base pd)) (CppToC_Wrap br CefViewCppToC view)))"
  by (auto simp: CefPanelDelegateCToCpp_GetPreferredSize_def DCHECK_def invoke_def Let_def)

lemma GetMinimumSize_forwarded:
  "\<not> CEF_MEMBER_MISSING (get_minimum_size (base pd)) \<Longrightarrow> view \<noteq> NULL \<Longrightarrow>
   CefPanelDelegateCToCpp_GetMinimumSize br pd view w =
     (w\<lparr>trace := trace w @ [Invoke ''get_minimum_size'' [APtr (CppToC_Wrap br CefViewCppToC view)]]\<rparr>,
      Returned (the (get_minimum_size (base pd)) (CppToC_Wrap br CefViewCppToC view)))"
  by (auto simp: CefPanelDelegateCToCpp_GetMinimumSize_def DCHECK_def invoke_def Let_def)

lemma GetMaximumSize_forwarded:
  "\<not> CEF_MEMBER_MISSING (get_maximum_size (base pd)) \<Longrightarrow> view \<noteq> NULL \<Longrightarrow>
   CefPanelDelegateCToCpp_GetMaximumSize br pd view w =
     (w\<lparr>trace := trace w @ [Invoke ''get_maximum_size'' [APtr (CppToC_Wrap br CefViewCppToC view)]]\<rparr>,
      Returned (the (get_maximum_size (base pd)) (CppToC_Wrap br CefViewCppToC view)))"
  by (auto simp: CefPanelDelegateCToCpp_GetMaximumSize_def DCHECK_def invoke_def Let_def)

lemma GetHeightForWidth_forwarded:
  "\<not> CEF_MEMBER_MISSING (get_height_for_width (base pd)) \<Longrightarrow> view \<noteq> NULL \<Longrightarrow>
   CefPanelDelegateCToCpp_GetHeightForWidth br pd view wd w =
     (w\<lparr>trace := trace w @ [Invoke ''get_height_for_width'' [APtr (CppToC_Wrap br CefViewCppToC view), AInt wd]]\<rparr>,
      Returned (the (get_height_for_width (base pd)) (CppToC_Wrap br CefViewCppToC view) wd))"
  by (auto simp: CefPanelDelegateCToCpp_GetHeightForWidth_def DCHECK_def invoke_def Let_def)

lemma OnFocusedNodeChanged_forwarded:
  "\<not> CEF_MEMBER_MISSING (on_focused_node_changed rh) \<Longrightarrow> browser \<noteq> NULL \<Longrightarrow>
   CefRenderProcessHandlerCToCpp_OnFocusedNodeChanged br rh browser frame node w =
     (w\<lparr>trace := trace w @ [Invoke ''on_focused_node_changed'' [APtr (CppToC_Wrap br CefBrowserCppToC browser), APtr (CppToC_Wrap br CefFrameCppToC frame), APtr (CppToC_Wrap br CefDOMNodeCppToC node)]]\<rparr>,
      Returned ())"
  by (auto simp: CefRenderProcessHandlerCToCpp_OnFocusedNodeChanged_def DCHECK_def invoke_def Let_def)

section \<open>Return values\<close>

text \<open>
  Claim C6. On a forwarded call the translation of the result keeps its value: a callee
  result of 0 becomes \<open>false\<close> and 1 becomes \<open>true\<close>; a \<open>cef_size_t\<close> or an
  \<open>int\<close> is returned as the callee gave it; and the enumeration arguments
  (\<open>mask\<close>, \<open>navigation_type\<close>, \<open>source_process\<close>) reach the callee with the
  value the caller passed, a \<open>bool\<close> argument as 0 or 1.
\<close>

theorem return_translation_preserves_value:
  "(\<not> CEF_MEMBER_MISSING (on_drag_enter dh) \<and> browser \<noteq> NULL \<and> dragData \<noteq> NULL \<longrightarrow>
      (the (on_drag_enter dh) (CppToC_Wrap br CefBrowserCppToC browser) (CppToC_Wrap br CefDragDataCppToC dragData) m = 0 \<longrightarrow>
         snd (CefDragHandlerCToCpp_OnDragEnter br dh browser dragData m w) = Returned False)
      \<and> (the (on_drag_enter dh) (CppToC_Wrap br CefBrowserCppToC browser) (CppToC_Wrap br CefDragDataCppToC dragData) m = 1 \<longrightarrow>
         snd (CefDragHandlerCToCpp_OnDragEnter br dh browser dragData m w) = Returned True)
      \<and> trace (fst (CefDragHandlerCToCpp_OnDragEnter br dh browser dragData m w)) =
        trace w @ [Invoke ''on_drag_enter'' [APtr (CppToC_Wrap br CefBrowserCppToC browser), APtr (CppToC_Wrap br CefDragDataCppToC dragData), AInt m]])
   \<and> (\<not> CEF_MEMBER_MISSING (on_before_navigation rh) \<and> browser \<noteq> NULL \<and> frame \<noteq> NULL \<and> request \<noteq> NULL \<longrightarrow>
      (the (on_before_navigation rh) (CppToC_Wrap br CefBrowserCppToC browser) (CppToC_Wrap br CefFrameCppToC frame) (CppToC_Wrap br CefRequestCppToC request) navigation_type (bool_to_int is_redirect) = 0 \<longrightarrow>
         snd (CefRenderProcessHandlerCToCpp_OnBeforeNavigation br rh browser frame request navigation_type is_redirect w) = Returned False)
      \<and> (the (on_before_navigation rh) (CppToC_Wrap br CefBrowserCppToC browser) (CppToC_Wrap br CefFrameCppToC frame) (CppToC_Wrap br CefRequestCppToC request) navigation_type (bool_to_int is_redirect) = 1 \<longrightarrow>
         snd (CefRenderProcessHandlerCToCpp_OnBeforeNavigation br rh browser frame request navigation_type is_redirect w) = Returned True)
      \<and> trace (fst (CefRenderProcessHandlerCToCpp_OnBeforeNavigation br rh browser frame request navigation_type is_redirect w)) =
        trace w @ [Invoke ''on_before_navigation'' [APtr (CppToC_Wrap br CefBrowserCppToC browser), APtr (CppToC_Wrap br CefFrameCppToC frame), APtr (CppToC_Wrap br CefRequestCppToC request), AInt navigation_type, AInt (bool_to_int is_redirect)]])
   \<and> (\<not> CEF_MEMBER_MISSING (on_process_message_received rh) \<and> browser \<noteq> NULL \<and> message \<noteq> NULL \<longrightarrow>
      (the (on_process_message_received rh) (CppToC_Wrap br CefBrowserCppToC browser) source_process (CppToC_Wrap br CefProcessMessageCppToC message) = 0 \<longrightarrow>
         snd (CefRenderProcessHandlerCToCpp_OnProcessMessageReceived br rh browser source_process message w) = Returned False)
      \<and> (the (on_process_message_received rh) (CppToC_Wrap br CefBrowserCppToC browser) source_process (CppToC_Wrap br CefProcessMessageCppToC message) = 1 \<longrightarrow>
         snd (CefRenderProcessHandlerCToCpp_OnProcessMessageReceived br rh browser source_process message w) = Returned True)
      \<and> trace (fst (CefRenderProcessHandlerCToCpp_OnProcessMessageReceived br rh browser source_process message w)) =
        trace w @ [Invoke ''on_process_message_received'' [APtr (CppToC_Wrap br CefBrowserCppToC browser), AInt source_process, APtr (CppToC_Wrap br CefProcessMessageCppToC message)]])
   \<and> (\<not> CEF_MEMBER_MISSING (get_preferred_size (base pd)) \<and> view \<noteq> NULL \<longrightarrow>
      snd (CefPanelDelegateCToCpp_GetPreferredSize br pd view w) =
        Returned (the (get_preferred_size (base pd)) (CppToC_Wrap br CefViewCppToC view)))
   \<and> (\<not> CEF_MEMBER_MISSING (get_minimum_size (base pd)) \<and> view \<noteq> NULL \<longrightarrow>
      snd (CefPanelDelegateCToCpp_GetMinimumSize br pd view w) =
        Returned (the (get_minimum_size (base pd)) (CppToC_Wrap br CefViewCppToC view)))
   \<and> (\<not> CEF_MEMBER_MISSING (get_maximum_size (base pd)) \<and> view \<noteq> NULL \<longrightarrow>
      snd (CefPanelDelegateCToCpp_GetMaximumSize br pd view w) =
        Returned (the (get_maximum_size (base pd)) (CppToC_Wrap br CefViewCppToC view)))
   \<and> (\<not> CEF_MEMBER_MISSING (get_height_for_width (base pd)) \<and> view \<noteq> NULL \<longrightarrow>
      snd (CefPanelDelegateCToCpp_GetHeightForWidth br pd view wd w) =
        Returned (the (get_height_for_width (base pd)) (CppToC_Wrap br CefViewCppToC view) wd))
   \<and> bool_to_int False = 0 \<and> bool_to_int True = 1"
  by (simp add: OnDragEnter_forwarded OnBeforeNavigation_forwarded
        OnProcessMessageReceived_forwarded GetPreferredSize_forwarded
        GetMinimumSize_forwarded GetMaximumSize_forwarded GetHeightForWidth_forwarded
        bool_to_int_def)

theorem return_translation_preserves_value_witness:
  "snd (CefDragHandlerCToCpp_OnDragEnter release_bridge full_drag_handler (Some 1) (Some 2) 1
        empty_world) = Returned True
   \<and> trace (fst (CefDragHandlerCToCpp_OnDragEnter release_bridge full_drag_handler (Some 1)
        (Some 2) 1 empty_world))
      = [Invoke ''on_drag_enter'' [APtr (Some 101), APtr (Some 102), AInt 1]]
   \<and> snd (CefDragHandlerCToCpp_OnDragEnter release_bridge full_drag_handler (Some 1) (Some 2) 0
        empty_world) = Returned False
   \<and> snd (CefPanelDelegateCToCpp_GetPreferredSize release_bridge full_panel_delegate (Some 1)
        empty_world) = Returned \<lparr>width = 640, height = 480\<rparr>
   \<and> snd (CefPanelDelegateCToCpp_GetHeightForWidth release_bridge full_panel_delegate (Some 1) 21
        empty_world) = Returned 42"
  using return_translation_preserves_value
      [where br = release_bridge and dh = full_drag_handler and browser = "Some 1"
         and dragData = "Some 2" and m = 1 and w = empty_world, THEN conjunct1]
    return_translation_preserves_value
      [where br = release_bridge and dh = full_drag_handler and browser = "Some 1"
         and dragData = "Some 2" and m = 0 and w = empty_world, THEN conjunct1]
    return_translation_preserves_value
      [where br = release_bridge and pd = full_panel_delegate and view = "Some 1"
         and w = empty_world, THEN conjunct2, THEN conjunct2, THEN conjunct2, THEN conjunct1]
    return_translation_preserves_value
      [where br = release_bridge and pd = full_panel_delegate and view = "Some 1" and wd = 21
         and w = empty_world, THEN conjunct2, THEN conjunct2, THEN conjunct2, THEN conjunct2,
         THEN conjunct2, THEN conjunct2, THEN conjunct1]
  by (simp add: CEF_MEMBER_MISSING_def full_drag_handler_def full_panel_delegate_def
        release_bridge_def debug_bridge_def empty_world_def)

section \<open>Nonzero results of bool-returning shims\<close>

text \<open>
  Claim C10. The three bool-returning shims return \<open>true\<close> exactly when the C
  callback returned an \<open>int\<close> other than 0: every nonzero value, not only 1, maps to
  \<open>true\<close>, and 0 alone maps to \<open>false\<close>.
\<close>

theorem nonzero_int_is_true:
  "(\<not> CEF_MEMBER_MISSING (on_drag_enter dh) \<and> browser \<noteq> NULL \<and> dragData \<noteq> NULL \<longrightarrow>
      snd (CefDragHandlerCToCpp_OnDragEnter br dh browser dragData m w) =
        Returned (the (on_drag_enter dh) (CppToC_Wrap br CefBrowserCppToC browser) (CppToC_Wrap br CefDragDataCppToC dragData) m \<noteq> 0))
   \<and> (\<not> CEF_MEMBER_MISSING (on_before_navigation rh) \<and> browser \<noteq> NULL \<and> frame \<noteq> NULL \<and> request \<noteq> NULL \<longrightarrow>
      snd (CefRenderProcessHandlerCToCpp_OnBeforeNavigation br rh browser frame request navigation_type is_redirect w) =
        Returned (the (on_before_navigation rh) (CppToC_Wrap br CefBrowserCppToC browser) (CppToC_Wrap br CefFrameCppToC frame) (CppToC_Wrap br CefRequestCppToC request) navigation_type (bool_to_int is_redirect) \<noteq> 0))
   \<and> (\<not> CEF_MEMBER_MISSING (on_process_message_received rh) \<and> browser \<noteq> NULL \<and> message \<noteq> NULL \<longrightarrow>
      snd (CefRenderProcessHandlerCToCpp_OnProcessMessageReceived br rh browser source_process message w) =
        Returned (the (on_process_message_received rh) (CppToC_Wrap br CefBrowserCppToC browser) source_process (CppToC_Wrap br CefProcessMessageCppToC message) \<noteq> 0))"
  by (simp add: OnDragEnter_forwarded OnBeforeNavigation_forwarded
        OnProcessMessageReceived_forwarded)

theorem nonzero_int_is_true_witness:
  "snd (CefDragHandlerCToCpp_OnDragEnter release_bridge full_drag_handler (Some 1) (Some 2) 2
        empty_world) = Returned True
   \<and> snd (CefDragHandlerCToCpp_OnDragEnter release_bridge full_drag_handler (Some 1) (Some 2) (- 1)
        empty_world) = Returned True
   \<and> snd (CefRenderProcessHandlerCToCpp_OnProcessMessageReceived release_bridge
        full_render_process_handler (Some 1) 0 (Some 3) empty_world) = Returned False"
  using nonzero_int_is_true
      [where br = release_bridge and dh = full_drag_handler and browser = "Some 1"
         and dragData = "Some 2" and m = 2 and w = empty_world, THEN conjunct1]
    nonzero_int_is_true
      [where br = release_bridge and dh = full_drag_handler and browser = "Some 1"
         and dragData = "Some 2" and m = "- 1" and w = empty_world, THEN conjunct1]
    nonzero_int_is_true
      [where br = release_bridge and rh = full_render_process_handler and browser = "Some 1"
         and source_process = 0 and message = "Some 3" and w = empty_world,
         THEN conjunct2, THEN conjunct2]
  by (simp add: CEF_MEMBER_MISSING_def full_drag_handler_def full_render_process_handler_def
        release_bridge_def debug_bridge_def)

section \<open>Optional parameters\<close>

text \<open>
  Claim C7. \<open>OnFocusedNodeChanged\<close> is the shim with parameters that are not
  verified. Whatever \<open>frame\<close> and \<open>node\<close> are, null included, a call with the member
  present and a non-null \<open>browser\<close> is forwarded, with \<open>frame\<close> and \<open>node\<close>
  handed to \<open>Wrap\<close> and on to the callee unchecked; the required \<open>browser\<close> is
  still checked, and a null \<open>browser\<close> is never forwarded.
\<close>

theorem optional_params_forwarded_unchecked:
  "(\<not> CEF_MEMBER_MISSING (on_focused_node_changed rh) \<and> browser \<noteq> NULL \<longrightarrow>
      CefRenderProcessHandlerCToCpp_OnFocusedNodeChanged br rh browser frame node w =
        (w\<lparr>trace := trace w @ [Invoke ''on_focused_node_changed'' [APtr (CppToC_Wrap br CefBrowserCppToC browser), APtr (CppToC_Wrap br CefFrameCppToC frame), APtr (CppToC_Wrap br CefDOMNodeCppToC node)]]\<rparr>,
         Returned ()))
   \<and> (browser = NULL \<longrightarrow>
      fst (CefRenderProcessHandlerCToCpp_OnFocusedNodeChanged br rh browser frame node w) = w)"
  by (simp add: OnFocusedNodeChanged_forwarded OnFocusedNodeChanged_null)

theorem optional_params_forwarded_unchecked_witness:
  "CefRenderProcessHandlerCToCpp_OnFocusedNodeChanged debug_bridge full_render_process_handler
     (Some 1) NULL NULL empty_world
   = (\<lparr>trace = [Invoke ''on_focused_node_changed'' [APtr (Some 101), APtr NULL, APtr NULL]],
       heap = Map.empty, next_addr = 0\<rparr>, Returned ())
   \<and> fst (CefRenderProcessHandlerCToCpp_OnFocusedNodeChanged release_bridge
        full_render_process_handler NULL (Some 2) (Some 3) empty_world) = empty_world"
  using optional_params_forwarded_unchecked
      [where br = debug_bridge and rh = full_render_process_handler and browser = "Some 1"
         and frame = NULL and node = NULL and w = empty_world]
    optional_params_forwarded_unchecked
      [where br = release_bridge and rh = full_render_process_handler and browser = NULL
         and frame = "Some 2" and node = "Some 3" and w = empty_world]
  by (simp add: CEF_MEMBER_MISSING_def full_render_process_handler_def debug_bridge_def
        empty_world_def)

end
